theory Spec2Isabelle
  imports Complex_Main "HOL-Library.Sublist"
begin

section \<open>CultureBridge: the deterministic core of the adaptation pipeline\<close>

text \<open>
  A shallow embedding of the rule-based parts of the CultureBridge API:
  the variant store, the cultural data loader (priors, overrides, rule matcher),
  the profile resolver, and the fallback computations of the UX, compliance and
  experimentation agents. Python dictionaries whose iteration order is observable are
  association lists; exceptions are values of type \<open>py_error\<close>.
\<close>

subsection \<open>Python values\<close>

datatype py_error = KeyError string | ValueError string | AttributeError string | TypeError string

text \<open>
  A dimension score is a Python number: an \<open>int\<close> as the JSON priors store it, or a
  \<open>float\<close> as an override arrives from the request model. Comparisons are by value;
  floats are idealised as exact rationals.
\<close>

datatype pynum = PyInt int | PyFloat rat

fun num_val :: "pynum \<Rightarrow> rat" where
  "num_val (PyInt i) = of_int i"
| "num_val (PyFloat r) = r"

definition digit :: "nat \<Rightarrow> char" where
  "digit n = ''0123456789'' ! n"

function show_nat :: "nat \<Rightarrow> string" where
  "show_nat n = (if n < 10 then [digit n] else show_nat (n div 10) @ [digit (n mod 10)])"
  by pat_completeness auto
termination
  by (relation "measure id") auto

declare show_nat.simps [simp del]

definition show_int :: "int \<Rightarrow> string" where
  "show_int i = (if i < 0 then ''-'' @ show_nat (nat (- i)) else show_nat (nat i))"

text \<open>
  \<open>str(x)\<close> inside an f-string. The shortest round-trip text of a float is Python's own
  algorithm and is taken as the parameter \<open>frepr\<close>.
\<close>

fun py_str :: "(rat \<Rightarrow> string) \<Rightarrow> pynum \<Rightarrow> string" where
  "py_str frepr (PyInt i) = show_int i"
| "py_str frepr (PyFloat r) = frepr r"

text \<open>\<open>f"{n:03d}"\<close> for a non-negative counter.\<close>

definition fmt_03d :: "nat \<Rightarrow> string" where
  "fmt_03d n = (let s = show_nat n in replicate (3 - length s) (CHR ''0'') @ s)"

text \<open>\<open>str.lower()\<close> on ASCII text.\<close>

definition lower_char :: "char \<Rightarrow> char" where
  "lower_char c =
     (case map_of (zip ''ABCDEFGHIJKLMNOPQRSTUVWXYZ'' ''abcdefghijklmnopqrstuvwxyz'') c of
        None \<Rightarrow> c | Some d \<Rightarrow> d)"

definition lower :: "string \<Rightarrow> string" where
  "lower s = map lower_char s"

text \<open>\<open>pat in s\<close> for strings: \<open>pat\<close> occurs as a contiguous substring of \<open>s\<close>.\<close>

fun str_contains :: "string \<Rightarrow> string \<Rightarrow> bool" where
  "str_contains [] pat = (pat = [])"
| "str_contains (c # cs) pat = (prefix pat (c # cs) \<or> str_contains cs pat)"

text \<open>\<open>sep.join(xs)\<close>.\<close>

fun join :: "string \<Rightarrow> string list \<Rightarrow> string" where
  "join sep [] = []"
| "join sep [x] = x"
| "join sep (x # y # ys) = x @ sep @ join sep (y # ys)"

text \<open>
  Python's \<open>round(x, n)\<close>: to the nearest multiple of \<open>10\<^sup>-\<^sup>n\<close>, a tie going to the even
  neighbour.
\<close>

definition round_half_even :: "rat \<Rightarrow> int" where
  "round_half_even x =
     (let f = \<lfloor>x\<rfloor>; d = x - of_int f
      in if d < 1 / 2 then f else if 1 / 2 < d then f + 1 else if even f then f else f + 1)"

definition py_round :: "rat \<Rightarrow> nat \<Rightarrow> rat" where
  "py_round x n = of_int (round_half_even (x * 10 ^ n)) / 10 ^ n"

text \<open>\<open>f"{x:.1f}"\<close> for \<open>x \<ge> 0\<close>.\<close>

definition fmt_1f :: "rat \<Rightarrow> string" where
  "fmt_1f x = (let t = nat (round_half_even (x * 10))
               in show_nat (t div 10) @ ''.'' @ show_nat (t mod 10))"

text \<open>
  Parsed JSON, as \<open>json.loads\<close> returns it and as the gateway's dictionaries carry it.
\<close>

datatype jval =
    JNull
  | JBool bool
  | JNum rat
  | JStr string
  | JArr "jval list"
  | JObj "(string \<times> jval) list"

type_synonym pydict = "(string \<times> jval) list"

text \<open>Truthiness of \<open>d.get(key)\<close>: a missing key gives \<open>None\<close>, which is falsy.\<close>

fun truthy :: "jval \<Rightarrow> bool" where
  "truthy JNull = False"
| "truthy (JBool b) = b"
| "truthy (JNum r) = (r \<noteq> 0)"
| "truthy (JStr s) = (s \<noteq> [])"
| "truthy (JArr xs) = (xs \<noteq> [])"
| "truthy (JObj kvs) = (kvs \<noteq> [])"

definition get_truthy :: "pydict \<Rightarrow> string \<Rightarrow> bool" where
  "get_truthy d key = (case map_of d key of None \<Rightarrow> False | Some v \<Rightarrow> truthy v)"

definition has_key :: "pydict \<Rightarrow> string \<Rightarrow> bool" where
  "has_key d key = (map_of d key \<noteq> None)"

subsection \<open>cultural\_data.py\<close>

text \<open>
  A dimensions dictionary is a Python object that several dictionaries may reference, and
  \<open>get_cultural_prior_with_overrides\<close> assigns into it. Such objects therefore live in
  an explicit store, and the dictionaries holding them carry their address.
\<close>

type_synonym addr = nat

type_synonym dimensions = "string \<rightharpoonup> pynum"

record evidence_entry =
  ev_source :: string
  ev_description :: string

text \<open>One entry of \<open>_data["cultural_priors"]\<close>.\<close>

record stored_prior =
  sp_country_name :: "string option"
  sp_dimensions :: addr
  sp_evidence :: "evidence_entry list"
  sp_notes :: string

text \<open>One entry of \<open>_data["dimension_ux_mapping"]["rules"]\<close>; the matcher reads
  \<open>rule["dimension"]\<close> and \<open>rule["condition"]\<close>.\<close>

record rule =
  rule_id :: string
  dimension :: string
  condition :: string

record flow_adaptation =
  fa_change :: string
  fa_dimension_driver :: "string option"
  fa_rationale :: string

record flow_step =
  step_id :: "string option"
  step_name :: "string option"
  step_description :: "string option"
  adaptations :: "flow_adaptation list option"
  required_fields :: "string list option"
  validations :: "string list option"

record base_spec =
  bs_product_category :: "string option"
  bs_baseline_flow :: "flow_step list"

text \<open>
  The loader: the three sections of \<open>_data\<close>, the store of dimension dictionaries and
  the next unused address.
\<close>

record loader =
  cultural_priors :: "string \<rightharpoonup> stored_prior"
  mapping_rules :: "rule list"
  product_baselines :: "string \<rightharpoonup> base_spec"
  heap :: "addr \<Rightarrow> dimensions"
  next_addr :: addr

text \<open>What \<open>get_cultural_prior\<close> returns: a new dictionary whose \<open>"dimensions"\<close> entry
  is the stored dictionary object itself.\<close>

record prior_dict =
  pd_country_code :: string
  pd_country_name :: string
  pd_dimensions :: addr
  pd_evidence :: "evidence_entry list"
  pd_notes :: string

definition get_cultural_prior :: "loader \<Rightarrow> string \<Rightarrow> prior_dict option" where
  "get_cultural_prior L country_code =
     (case cultural_priors L country_code of
        None \<Rightarrow> None
      | Some prior \<Rightarrow>
          Some \<lparr>pd_country_code = country_code,
                pd_country_name = (case sp_country_name prior of None \<Rightarrow> country_code | Some n \<Rightarrow> n),
                pd_dimensions = sp_dimensions prior,
                pd_evidence = sp_evidence prior,
                pd_notes = sp_notes prior\<rparr>)"

text \<open>The loop \<open>for dim_key, dim_value in overrides.items()\<close> on one dictionary object.\<close>

fun apply_overrides :: "dimensions \<Rightarrow> (string \<times> pynum) list \<Rightarrow> dimensions" where
  "apply_overrides d [] = d"
| "apply_overrides d ((dim_key, dim_value) # overrides) =
     apply_overrides (case d dim_key of None \<Rightarrow> d | Some old \<Rightarrow> d(dim_key \<mapsto> dim_value)) overrides"

definition get_cultural_prior_with_overrides ::
  "loader \<Rightarrow> string \<Rightarrow> (string \<times> pynum) list \<Rightarrow> prior_dict option \<times> loader" where
  "get_cultural_prior_with_overrides L country_code overrides =
     (case get_cultural_prior L country_code of
        None \<Rightarrow> (None, L)
      | Some prior \<Rightarrow>
          if overrides \<noteq> [] then
            (Some (prior\<lparr>pd_notes := pd_notes prior @ '' [Manual overrides applied to some dimensions]''\<rparr>),
             L\<lparr>heap := (heap L)(pd_dimensions prior :=
                   apply_overrides (heap L (pd_dimensions prior)) overrides)\<rparr>)
          else (Some prior, L))"

definition get_mapping_rules :: "loader \<Rightarrow> rule list" where
  "get_mapping_rules L = mapping_rules L"

text \<open>
  One pass of the matcher's loop body: \<open>Inr True\<close> appends the rule, \<open>Inr False\<close> goes on
  without it. \<open>float\<close> is Python's built-in, a parameter here: \<open>None\<close> is its
  \<open>ValueError\<close>.
\<close>

definition rule_applies ::
  "(string \<Rightarrow> rat option) \<Rightarrow> dimensions \<Rightarrow> rule \<Rightarrow> py_error + bool" where
  "rule_applies float dims r =
     (case dims (dimension r) of
        None \<Rightarrow> Inr False
      | Some v \<Rightarrow>
          if prefix ''>='' (condition r) then
            (case float (drop 2 (condition r)) of
               None \<Rightarrow> Inl (ValueError (drop 2 (condition r)))
             | Some threshold \<Rightarrow> Inr (num_val v \<ge> threshold))
          else if prefix ''<='' (condition r) then
            (case float (drop 2 (condition r)) of
               None \<Rightarrow> Inl (ValueError (drop 2 (condition r)))
             | Some threshold \<Rightarrow> Inr (num_val v \<le> threshold))
          else if prefix ''>'' (condition r) then
            (case float (drop 1 (condition r)) of
               None \<Rightarrow> Inl (ValueError (drop 1 (condition r)))
             | Some threshold \<Rightarrow> Inr (num_val v > threshold))
          else if prefix ''<'' (condition r) then
            (case float (drop 1 (condition r)) of
               None \<Rightarrow> Inl (ValueError (drop 1 (condition r)))
             | Some threshold \<Rightarrow> Inr (num_val v < threshold))
          else Inr False)"

fun applicable_loop ::
  "(string \<Rightarrow> rat option) \<Rightarrow> dimensions \<Rightarrow> rule list \<Rightarrow> rule list \<Rightarrow> py_error + rule list" where
  "applicable_loop float dims [] applicable = Inr applicable"
| "applicable_loop float dims (r # all_rules) applicable =
     (case rule_applies float dims r of
        Inl e \<Rightarrow> Inl e
      | Inr b \<Rightarrow> applicable_loop float dims all_rules (if b then applicable @ [r] else applicable))"

definition get_applicable_rules ::
  "(string \<Rightarrow> rat option) \<Rightarrow> loader \<Rightarrow> dimensions \<Rightarrow> py_error + rule list" where
  "get_applicable_rules float L dims = applicable_loop float dims (get_mapping_rules L) []"

definition get_product_baseline :: "loader \<Rightarrow> string \<Rightarrow> base_spec option" where
  "get_product_baseline L category = product_baselines L category"

text \<open>
  \<open>float\<close> on a string of decimal digits, for running the matcher on concrete tables.
\<close>

definition digit_val :: "char \<Rightarrow> nat option" where
  "digit_val c = map_of (zip ''0123456789'' [0, 1, 2, 3, 4, 5, 6, 7, 8, 9]) c"

fun digits_val :: "nat \<Rightarrow> string \<Rightarrow> nat option" where
  "digits_val acc [] = Some acc"
| "digits_val acc (c # cs) =
     (case digit_val c of None \<Rightarrow> None | Some d \<Rightarrow> digits_val (10 * acc + d) cs)"

definition float_digits :: "string \<Rightarrow> rat option" where
  "float_digits s = (if s = [] then None else map_option of_nat (digits_val 0 s))"

text \<open>The matcher as the specification words it: a comparator, a threshold, a filter.\<close>

datatype comparator = GE | LE | GT | LT

fun comparator_symbol :: "comparator \<Rightarrow> string" where
  "comparator_symbol GE = ''>=''"
| "comparator_symbol LE = ''<=''"
| "comparator_symbol GT = ''>''"
| "comparator_symbol LT = ''<''"

fun compare_num :: "comparator \<Rightarrow> rat \<Rightarrow> rat \<Rightarrow> bool" where
  "compare_num GE v t = (v \<ge> t)"
| "compare_num LE v t = (v \<le> t)"
| "compare_num GT v t = (v > t)"
| "compare_num LT v t = (v < t)"

text \<open>
  Rule \<open>r\<close> states comparator \<open>c\<close> and threshold \<open>t\<close>: its condition is the comparator's
  symbol followed by a text that \<open>float\<close> reads as \<open>t\<close> (so the text after \<open>>\<close> or \<open><\<close>
  does not begin with \<open>=\<close>).
\<close>

definition states :: "(string \<Rightarrow> rat option) \<Rightarrow> rule \<Rightarrow> comparator \<Rightarrow> rat \<Rightarrow> bool" where
  "states float r c t =
     (float (drop (length (comparator_symbol c)) (condition r)) = Some t
      \<and> prefix (comparator_symbol c) (condition r)
      \<and> (length (comparator_symbol c) = 1 \<longrightarrow> \<not> prefix ''='' (drop 1 (condition r))))"

definition satisfied :: "dimensions \<Rightarrow> rule \<Rightarrow> comparator \<Rightarrow> rat \<Rightarrow> bool" where
  "satisfied profile r c t =
     (case profile (dimension r) of None \<Rightarrow> False | Some v \<Rightarrow> compare_num c (num_val v) t)"

subsection \<open>agents/llm\_client.py\<close>

text \<open>
  What one call of the enrichment service can do, as \<open>generate_structured\<close> observes it:
  no client was configured; \<open>create\<close> raised; the message content was empty;
  \<open>json.loads\<close> raised \<open>JSONDecodeError\<close>; or \<open>json.loads\<close> returned a value.
\<close>

datatype llm_response =
    NotConfigured
  | CallFailed string
  | EmptyContent
  | Malformed string
  | Parsed jval

definition fallback_response :: jval where
  "fallback_response =
     JObj [(''rationale'', JStr ''Generated using fallback mode (Azure OpenAI not configured). Configure AZURE_OPENAI_ENDPOINT and AZURE_OPENAI_API_KEY for full functionality.''),
           (''fallback'', JBool True)]"

fun generate_structured :: "llm_response \<Rightarrow> jval" where
  "generate_structured NotConfigured = fallback_response"
| "generate_structured (Parsed result) = result"
| "generate_structured EmptyContent =
     JObj [(''error'', JStr ''Empty response from LLM''),
           (''rationale'', JStr ''Fallback due to empty response'')]"
| "generate_structured (Malformed e) =
     JObj [(''error'', JStr e), (''rationale'', JStr ''Failed to parse LLM response as JSON'')]"
| "generate_structured (CallFailed e) =
     JObj [(''error'', JStr e), (''rationale'', JStr (''LLM call failed: '' @ e))]"

text \<open>The outcomes that are not a parsed structured result.\<close>

fun unavailable :: "llm_response \<Rightarrow> bool" where
  "unavailable (Parsed result) = False"
| "unavailable resp = True"

text \<open>\<open>result.get("fallback")\<close> on what the gateway returned: only a dictionary has \<open>get\<close>.\<close>

definition result_fallback :: "jval \<Rightarrow> py_error + bool" where
  "result_fallback result =
     (case result of
        JObj d \<Rightarrow> Inr (get_truthy d ''fallback'')
      | _ \<Rightarrow> Inl (AttributeError ''get''))"

text \<open>\<open>key in result\<close>: a key of a dictionary, an element of a list, a substring of a
  string; other values are not containers.\<close>

definition result_contains :: "jval \<Rightarrow> string \<Rightarrow> py_error + bool" where
  "result_contains result key =
     (case result of
        JObj d \<Rightarrow> Inr (has_key d key)
      | JArr xs \<Rightarrow> Inr (JStr key \<in> set xs)
      | JStr s \<Rightarrow> Inr (str_contains s key)
      | _ \<Rightarrow> Inl (TypeError ''in''))"

subsection \<open>agents/cultural\_intelligence.py\<close>

record profile =
  pr_country_code :: string
  pr_dimensions :: addr
  pr_evidence :: "evidence_entry list"
  pr_notes :: string
  pr_rationale :: string
  pr_dimension_rationales :: "(string \<times> string) list"

text \<open>
  The result of \<open>analyze\<close>. In the enrichment branch every field of the profile is
  \<open>result.get(field, base_prior[field])\<close>; that profile is kept as the country code, the
  gateway's dictionary and the base prior it is read from.
\<close>

datatype analysis =
    Resolved profile
  | Enriched string pydict prior_dict

definition DIMENSION_KEYS :: "string list" where
  "DIMENSION_KEYS =
     [''uncertainty_avoidance'', ''collectivism'', ''authority_distance'', ''context_level'',
      ''price_sensitivity'', ''trust_need'', ''friction_tolerance'']"

definition default_dimensions :: dimensions where
  "default_dimensions =
     [''uncertainty_avoidance'' \<mapsto> PyInt 50,
      ''collectivism'' \<mapsto> PyInt 50,
      ''authority_distance'' \<mapsto> PyInt 50,
      ''context_level'' \<mapsto> PyInt 50,
      ''price_sensitivity'' \<mapsto> PyInt 50,
      ''trust_need'' \<mapsto> PyInt 50,
      ''friction_tolerance'' \<mapsto> PyInt 50]"

text \<open>The dictionary literal of \<open>_default_profile\<close> is a new object in the store.\<close>

definition default_profile :: "loader \<Rightarrow> string \<Rightarrow> profile \<times> loader" where
  "default_profile L country_code =
     (\<lparr>pr_country_code = country_code,
       pr_dimensions = next_addr L,
       pr_evidence =
         [\<lparr>ev_source = ''Default baseline'',
           ev_description = ''No specific cultural data available; using neutral midpoint values.''\<rparr>],
       pr_notes = ''No cultural priors available for '' @ country_code @ ''. Using default neutral values.'',
       pr_rationale = ''Default neutral profile applied due to missing cultural data.'',
       pr_dimension_rationales = []\<rparr>,
      L\<lparr>heap := (heap L)(next_addr L := default_dimensions), next_addr := Suc (next_addr L)\<rparr>)"

definition base_profile :: "string \<Rightarrow> string \<Rightarrow> prior_dict \<Rightarrow> profile" where
  "base_profile country_code product_category base_prior =
     \<lparr>pr_country_code = country_code,
      pr_dimensions = pd_dimensions base_prior,
      pr_evidence = pd_evidence base_prior,
      pr_notes = pd_notes base_prior,
      pr_rationale = ''Base cultural priors for '' @ country_code @ '' in '' @ product_category
                     @ '' context. LLM enrichment not available.'',
      pr_dimension_rationales = []\<rparr>"

text \<open>
  \<open>analyze\<close>, given what the gateway does when it is called. The test
  \<open>"dimensions" in result and not result.get("fallback")\<close> evaluates its second operand
  only when the first holds.
\<close>

definition analyze ::
  "loader \<Rightarrow> llm_response \<Rightarrow> string \<Rightarrow> string \<Rightarrow> (string \<times> pynum) list option
     \<Rightarrow> (py_error + analysis) \<times> loader" where
  "analyze L resp country_code product_category override_dimensions =
     (case get_cultural_prior_with_overrides L country_code
             (case override_dimensions of None \<Rightarrow> [] | Some ovs \<Rightarrow> ovs) of
        (None, L1) \<Rightarrow>
          (case default_profile L1 country_code of (p, L2) \<Rightarrow> (Inr (Resolved p), L2))
      | (Some base_prior, L1) \<Rightarrow>
          (let result = generate_structured resp in
           case result_contains result ''dimensions'' of
             Inl e \<Rightarrow> (Inl e, L1)
           | Inr False \<Rightarrow> (Inr (Resolved (base_profile country_code product_category base_prior)), L1)
           | Inr True \<Rightarrow>
               (case result_fallback result of
                  Inl e \<Rightarrow> (Inl e, L1)
                | Inr True \<Rightarrow>
                    (Inr (Resolved (base_profile country_code product_category base_prior)), L1)
                | Inr False \<Rightarrow>
                    (case result of
                       JObj d \<Rightarrow> (Inr (Enriched country_code d base_prior), L1)
                     | _ \<Rightarrow> (Inl (AttributeError ''get''), L1)))))"

text \<open>The content of the dimensions dictionary a profile refers to.\<close>

definition profile_dimensions :: "loader \<Rightarrow> profile \<Rightarrow> dimensions" where
  "profile_dimensions L p = heap L (pr_dimensions p)"

text \<open>
  The loader after \<open>_load\<close> found no data file: the three sections are empty.
\<close>

definition empty_loader :: loader where
  "empty_loader =
     \<lparr>cultural_priors = Map.empty, mapping_rules = [], product_baselines = Map.empty,
      heap = (\<lambda>a. Map.empty), next_addr = 0\<rparr>"

text \<open>A score within the bounds of the model: \<open>0 \<le> v \<le> 100\<close>.\<close>

definition in_range :: "pynum \<Rightarrow> bool" where
  "in_range v = (0 \<le> num_val v \<and> num_val v \<le> 100)"

text \<open>Exactly the seven dimensions, each within bounds.\<close>

definition valid_dimensions :: "dimensions \<Rightarrow> bool" where
  "valid_dimensions d =
     (dom d = set DIMENSION_KEYS
      \<and> list_all (\<lambda>k. case d k of None \<Rightarrow> False | Some v \<Rightarrow> in_range v) DIMENSION_KEYS)"

text \<open>The dimension a finished \<open>analyze\<close> reports under a key, read through the store.\<close>

definition resolved_dimension :: "(py_error + analysis) \<times> loader \<Rightarrow> string \<Rightarrow> pynum option" where
  "resolved_dimension r key =
     (case r of
        (Inr (Resolved p), L') \<Rightarrow> profile_dimensions L' p key
      | _ \<Rightarrow> None)"

definition stored_dimension :: "loader \<Rightarrow> string \<Rightarrow> string \<Rightarrow> pynum option" where
  "stored_dimension L country_code key =
     (case cultural_priors L country_code of
        None \<Rightarrow> None
      | Some prior \<Rightarrow> heap L (sp_dimensions prior) key)"

text \<open>
  A loader holding the prior that the test fixture \<open>japan_dimensions\<close> describes, and a
  small rule table in the format of the data file.
\<close>

definition jp_dimensions :: dimensions where
  "jp_dimensions =
     [''uncertainty_avoidance'' \<mapsto> PyInt 82,
      ''collectivism'' \<mapsto> PyInt 78,
      ''authority_distance'' \<mapsto> PyInt 54,
      ''context_level'' \<mapsto> PyInt 85,
      ''price_sensitivity'' \<mapsto> PyInt 45,
      ''trust_need'' \<mapsto> PyInt 88,
      ''friction_tolerance'' \<mapsto> PyInt 72]"

definition example_rules :: "rule list" where
  "example_rules =
     [\<lparr>rule_id = ''UA_HIGH_TRUST'', dimension = ''uncertainty_avoidance'', condition = ''>=70''\<rparr>,
      \<lparr>rule_id = ''FRIC_LOW_STREAMLINE'', dimension = ''friction_tolerance'', condition = ''<=40''\<rparr>,
      \<lparr>rule_id = ''COL_HIGH_SOCIAL'', dimension = ''collectivism'', condition = ''>65''\<rparr>,
      \<lparr>rule_id = ''COL_LOW_INDIVIDUAL'', dimension = ''collectivism'', condition = ''<35''\<rparr>,
      \<lparr>rule_id = ''LOYALTY_HIGH'', dimension = ''brand_loyalty'', condition = ''high''\<rparr>]"

definition jp_loader :: loader where
  "jp_loader =
     \<lparr>cultural_priors =
        [''JP'' \<mapsto> \<lparr>sp_country_name = Some ''Japan'', sp_dimensions = 0,
                      sp_evidence = [], sp_notes = ''Population-level tendencies.''\<rparr>],
      mapping_rules = example_rules, product_baselines = Map.empty,
      heap = (\<lambda>a. Map.empty)(0 := jp_dimensions), next_addr = 1\<rparr>"

text \<open>The loader after one resolution with an override.\<close>

definition jp_loader_overridden :: loader where
  "jp_loader_overridden =
     snd (get_cultural_prior_with_overrides jp_loader ''JP'' [(''uncertainty_avoidance'', PyInt 50)])"

subsection \<open>The variant handed from stage to stage\<close>

text \<open>
  A module's dictionary; a key that is not set is \<open>None\<close>, as \<open>dict.get\<close> reports it.
\<close>

record module =
  m_enabled :: "bool option"
  m_placement :: "string option"
  m_style :: "string option"
  m_types :: "string list option"
  m_prominence :: "string option"
  m_detail_level :: "string option"
  m_show_installments :: "bool option"
  m_show_local_methods :: "bool option"
  m_emphasized_methods :: "string list option"
  m_type :: "string option"
  m_adaptation_rationale :: "string option"

definition empty_module :: module where
  "empty_module =
     \<lparr>m_enabled = None, m_placement = None, m_style = None, m_types = None,
      m_prominence = None, m_detail_level = None, m_show_installments = None,
      m_show_local_methods = None, m_emphasized_methods = None, m_type = None,
      m_adaptation_rationale = None\<rparr>"

text \<open>\<open>modules.get(name, {})\<close>.\<close>

definition modules_get :: "(string \<times> module) list \<Rightarrow> string \<Rightarrow> module" where
  "modules_get modules name = (case map_of modules name of None \<Rightarrow> empty_module | Some m \<Rightarrow> m)"

record copy_field =
  cf_text :: "string option"
  cf_rationale :: "string option"

text \<open>A copy entry is a dictionary, or (as \<open>microcopy\<close>) a list of located entries.\<close>

datatype copy_value = CopyDict copy_field | CopyList "(string \<times> copy_field) list"

text \<open>The cultural profile as the later stages read it: the content of its dictionaries.\<close>

record cultural_profile =
  cp_country_code :: string
  cp_dimensions :: dimensions
  cp_evidence :: "evidence_entry list"
  cp_notes :: string

definition read_profile :: "loader \<Rightarrow> profile \<Rightarrow> cultural_profile" where
  "read_profile L p =
     \<lparr>cp_country_code = pr_country_code p, cp_dimensions = profile_dimensions L p,
      cp_evidence = pr_evidence p, cp_notes = pr_notes p\<rparr>"

record variant =
  v_region :: string
  v_theme_emphasis :: string
  v_flow :: "flow_step list"
  v_modules :: "(string \<times> module) list"
  v_copy :: "(string \<times> copy_value) list"
  v_cultural_profile :: cultural_profile

subsection \<open>agents/ux\_adaptation.py\<close>

record ux_result =
  ux_theme_emphasis :: string
  ux_rationale :: string
  ux_flow :: "flow_step list"
  ux_modules :: "(string \<times> module) list"

text \<open>\<open>dimensions.get(key, 50)\<close>.\<close>

definition dim_get :: "dimensions \<Rightarrow> string \<Rightarrow> pynum" where
  "dim_get dims key = (case dims key of None \<Rightarrow> PyInt 50 | Some v \<Rightarrow> v)"

definition default_base_spec :: base_spec where
  "default_base_spec =
     \<lparr>bs_product_category = Some ''general'',
      bs_baseline_flow =
        [\<lparr>step_id = Some ''browse'', step_name = Some ''Browse'',
          step_description = Some ''Product browsing'',
          adaptations = None, required_fields = None, validations = None\<rparr>,
         \<lparr>step_id = Some ''detail'', step_name = Some ''Product Detail'',
          step_description = Some ''Product detail page'',
          adaptations = None, required_fields = None, validations = None\<rparr>,
         \<lparr>step_id = Some ''cart'', step_name = Some ''Cart'',
          step_description = Some ''Shopping cart'',
          adaptations = None, required_fields = None, validations = None\<rparr>,
         \<lparr>step_id = Some ''checkout'', step_name = Some ''Checkout'',
          step_description = Some ''Checkout process'',
          adaptations = None, required_fields = None, validations = None\<rparr>,
         \<lparr>step_id = Some ''confirm'', step_name = Some ''Confirmation'',
          step_description = Some ''Order confirmation'',
          adaptations = None, required_fields = None, validations = None\<rparr>]\<rparr>"

definition express_checkout :: "(rat \<Rightarrow> string) \<Rightarrow> dimensions \<Rightarrow> flow_step" where
  "express_checkout frepr dims =
     \<lparr>step_id = Some ''express_checkout'',
      step_name = Some ''Express Checkout'',
      step_description = Some ''Combined shipping and payment in a single streamlined step'',
      adaptations =
        Some [\<lparr>fa_change = ''Combined shipping and payment steps'',
               fa_dimension_driver =
                 Some (''friction_tolerance='' @ py_str frepr (dim_get dims ''friction_tolerance'')),
               fa_rationale =
                 ''Low friction tolerance requires streamlined flow to prevent cart abandonment''\<rparr>],
      required_fields = Some [''full_name'', ''address'', ''payment_method''],
      validations = Some [''address_format'']\<rparr>"

text \<open>
  The loop of the low-friction branch; \<open>step["step_id"]\<close> raises \<open>KeyError\<close> on a step
  without that key.
\<close>

fun streamline ::
  "(rat \<Rightarrow> string) \<Rightarrow> dimensions \<Rightarrow> flow_step list \<Rightarrow> flow_step list \<Rightarrow> py_error + flow_step list" where
  "streamline frepr dims [] flow = Inr flow"
| "streamline frepr dims (step # base_flow) flow =
     (case step_id step of
        None \<Rightarrow> Inl (KeyError ''step_id'')
      | Some sid \<Rightarrow>
          if sid = ''shipping'' then
            streamline frepr dims base_flow (flow @ [express_checkout frepr dims])
          else if sid \<noteq> ''payment'' then
            streamline frepr dims base_flow (flow @ [step\<lparr>adaptations := Some []\<rparr>])
          else streamline frepr dims base_flow flow)"

definition adapted_modules :: "(rat \<Rightarrow> string) \<Rightarrow> dimensions \<Rightarrow> (string \<times> module) list" where
  "adapted_modules frepr dims =
     (let collectivism = dim_get dims ''collectivism'';
          trust_need = dim_get dims ''trust_need'';
          uncertainty_avoidance = dim_get dims ''uncertainty_avoidance'';
          context_level = dim_get dims ''context_level'';
          price_sensitivity = dim_get dims ''price_sensitivity''
      in
      [(''reviews'', empty_module
          \<lparr>m_enabled := Some True,
           m_placement := Some (if num_val collectivism \<ge> 65 then ''above_fold'' else ''below_fold''),
           m_style := Some (if num_val collectivism \<ge> 65 then ''community'' else ''stars''),
           m_adaptation_rationale :=
             Some (''Collectivism='' @ py_str frepr collectivism @ '': ''
                   @ (if num_val collectivism \<ge> 65 then ''Strong social proof emphasis''
                      else ''Standard review display''))\<rparr>),
       (''guarantees'', empty_module
          \<lparr>m_enabled := Some True,
           m_types :=
             Some (if num_val trust_need \<ge> 75
                   then [''money-back guarantee'', ''authenticity guarantee'', ''secure payment'',
                         ''official warranty'']
                   else [''30-day returns'', ''manufacturer warranty'']),
           m_prominence := Some (if num_val trust_need \<ge> 75 then ''high'' else ''medium''),
           m_adaptation_rationale :=
             Some (''Trust need='' @ py_str frepr trust_need @ '': ''
                   @ (if num_val trust_need \<ge> 75 then ''Enhanced guarantee prominence''
                      else ''Standard guarantees''))\<rparr>),
       (''shipping_info'', empty_module
          \<lparr>m_enabled := Some True,
           m_placement :=
             Some (if num_val uncertainty_avoidance \<ge> 70 then ''above_fold'' else ''product_detail''),
           m_detail_level := Some (if num_val context_level \<le> 35 then ''detailed'' else ''standard''),
           m_adaptation_rationale :=
             Some (''UA='' @ py_str frepr uncertainty_avoidance @ '', CL=''
                   @ py_str frepr context_level @ '': ''
                   @ (if num_val uncertainty_avoidance \<ge> 70 then ''Detailed upfront shipping info''
                      else ''Standard shipping display''))\<rparr>),
       (''returns'', empty_module
          \<lparr>m_enabled := Some True,
           m_prominence := Some (if num_val uncertainty_avoidance \<ge> 70 then ''high'' else ''medium''),
           m_adaptation_rationale :=
             Some (''UA='' @ py_str frepr uncertainty_avoidance @ '': ''
                   @ (if num_val uncertainty_avoidance \<ge> 70 then ''High prominence returns policy''
                      else ''Standard returns''))\<rparr>),
       (''payment_options'', empty_module
          \<lparr>m_enabled := Some True,
           m_show_installments := Some (num_val price_sensitivity \<ge> 70),
           m_show_local_methods := Some True,
           m_emphasized_methods :=
             Some (if num_val price_sensitivity \<ge> 70
                   then [''installments'', ''BNPL'', ''mobile_payment'']
                   else [''credit_card'', ''debit_card'']),
           m_adaptation_rationale :=
             Some (''Price sensitivity='' @ py_str frepr price_sensitivity @ '': ''
                   @ (if num_val price_sensitivity \<ge> 70
                      then ''Installment and flexible payment emphasis''
                      else ''Standard payment options''))\<rparr>),
       (''social_proof'', empty_module
          \<lparr>m_enabled := Some (num_val collectivism \<ge> 65),
           m_type := Some (if num_val collectivism \<ge> 65 then ''community'' else ''individual''),
           m_placement := Some (if num_val collectivism \<ge> 65 then ''above_fold'' else ''sidebar''),
           m_adaptation_rationale :=
             Some (''Collectivism='' @ py_str frepr collectivism @ '': ''
                   @ (if num_val collectivism \<ge> 65 then ''Community-driven social proof''
                      else ''Individual testimonials''))\<rparr>)])"

definition triggered_themes :: "dimensions \<Rightarrow> string list" where
  "triggered_themes dims =
     (if num_val (dim_get dims ''trust_need'') \<ge> 75 then [''trust-first''] else [])
     @ (if num_val (dim_get dims ''friction_tolerance'') \<le> 40 then [''efficiency-driven''] else [])
     @ (if num_val (dim_get dims ''collectivism'') \<ge> 65 then [''community-validated''] else [])
     @ (if num_val (dim_get dims ''context_level'') \<le> 35 then [''information-rich''] else [])
     @ (if num_val (dim_get dims ''price_sensitivity'') \<ge> 70 then [''value-oriented''] else [])"

definition rule_based_adaptation ::
  "(rat \<Rightarrow> string) \<Rightarrow> dimensions \<Rightarrow> rule list \<Rightarrow> base_spec \<Rightarrow> string \<Rightarrow> py_error + ux_result" where
  "rule_based_adaptation frepr dims rules base_spec price_band =
     (let base_flow = bs_baseline_flow base_spec;
          low_friction = (num_val (dim_get dims ''friction_tolerance'') \<le> 40)
      in case (if low_friction then streamline frepr dims base_flow []
               else Inr (map (\<lambda>step. step\<lparr>adaptations := Some []\<rparr>) base_flow)) of
           Inl e \<Rightarrow> Inl e
         | Inr flow \<Rightarrow>
             (let themes = triggered_themes dims;
                  theme = (if themes \<noteq> [] then join '', '' themes else ''balanced'')
              in Inr \<lparr>ux_theme_emphasis = theme,
                      ux_rationale =
                        ''Adaptation driven by '' @ show_nat (length rules)
                        @ '' applicable mapping rules for '' @ show_nat (length themes)
                        @ '' identified behavioral patterns. Generated using rule-based fallback.'',
                      ux_flow = flow,
                      ux_modules = adapted_modules frepr dims\<rparr>))"

text \<open>
  What a stage returns: the dictionary the gateway gave, handed on as it is, or the
  result of the stage's own rule-based computation.
\<close>

datatype 'a stage_output = FromGateway pydict | RuleBased 'a

text \<open>
  \<open>adapt\<close>, given what the gateway does when it is called. \<open>base_spec\<close> is \<open>None\<close> when
  the caller has no baseline for the category. The log line is not modelled.
\<close>

definition adapt ::
  "(string \<Rightarrow> rat option) \<Rightarrow> (rat \<Rightarrow> string) \<Rightarrow> loader \<Rightarrow> llm_response \<Rightarrow> cultural_profile
     \<Rightarrow> base_spec option \<Rightarrow> string \<Rightarrow> string \<Rightarrow> py_error + ux_result stage_output" where
  "adapt float frepr L resp cultural_profile base_spec price_band audience =
     (let dims = cp_dimensions cultural_profile in
      case get_applicable_rules float L dims of
        Inl e \<Rightarrow> Inl e
      | Inr applicable_rules \<Rightarrow>
          (let spec = (case base_spec of None \<Rightarrow> default_base_spec | Some b \<Rightarrow> b);
               result = generate_structured resp
           in case result_fallback result of
                Inl e \<Rightarrow> Inl e
              | Inr True \<Rightarrow>
                  (case rule_based_adaptation frepr dims applicable_rules spec price_band of
                     Inl e \<Rightarrow> Inl e
                   | Inr r \<Rightarrow> Inr (RuleBased r))
              | Inr False \<Rightarrow>
                  (case result of
                     JObj d \<Rightarrow> Inr (FromGateway d)
                   | _ \<Rightarrow> Inl (AttributeError ''get''))))"

subsection \<open>agents/compliance\_auditor.py\<close>

record risk_flag =
  flag_id :: string
  severity :: string
  rf_description :: string
  recommendation :: string
  affected_element :: string

record audit_result =
  audit_score :: int
  summary :: string
  risk_flags :: "risk_flag list"
  positive_notes :: "string list"

text \<open>The three variables the checks update: \<open>risk_flags\<close>, \<open>score\<close>, \<open>flag_counter\<close>.\<close>

record audit_state =
  st_flags :: "risk_flag list"
  st_score :: int
  st_counter :: nat

text \<open>One \<open>flag_counter += 1; risk_flags.append(...); score -= penalty\<close>.\<close>

definition raise_flag ::
  "string \<Rightarrow> string \<Rightarrow> string \<Rightarrow> string \<Rightarrow> int \<Rightarrow> audit_state \<Rightarrow> audit_state" where
  "raise_flag sev descr recomm element penalty st =
     \<lparr>st_flags = st_flags st @
        [\<lparr>flag_id = ''FLAG_'' @ fmt_03d (Suc (st_counter st)), severity = sev,
          rf_description = descr, recommendation = recomm, affected_element = element\<rparr>],
      st_score = st_score st - penalty,
      st_counter = Suc (st_counter st)\<rparr>"

definition essentializing_patterns :: "string list" where
  "essentializing_patterns =
     [''always'', ''never'', ''all people in'', ''everyone in'',
      ''they always'', ''they never'', ''people in'', ''typical of'']"

definition dimension_tokens :: "string list" where
  "dimension_tokens =
     [''uncertainty'', ''collectivism'', ''authority'', ''context'',
      ''price'', ''trust'', ''friction'', ''ua='', ''cl='']"

text \<open>\<open>value.get("text", "")\<close> and \<open>value.get("rationale", "")\<close>.\<close>

definition get_str :: "string option \<Rightarrow> string" where
  "get_str v = (case v of None \<Rightarrow> [] | Some x \<Rightarrow> x)"

definition pattern_matches :: "copy_field \<Rightarrow> string \<Rightarrow> bool" where
  "pattern_matches field pattern =
     (str_contains (lower (get_str (cf_text field))) (lower pattern)
      \<or> str_contains (lower (get_str (cf_rationale field))) (lower pattern))"

fun scan_patterns :: "bool \<Rightarrow> string \<Rightarrow> copy_field \<Rightarrow> string list \<Rightarrow> audit_state \<Rightarrow> audit_state" where
  "scan_patterns strict_mode key field [] st = st"
| "scan_patterns strict_mode key field (pattern # patterns) st =
     scan_patterns strict_mode key field patterns
       (if pattern_matches field pattern then
          raise_flag (if \<not> strict_mode then ''medium'' else ''high'')
            (''Potentially essentializing language detected in '' @ key @ '': contains '' @ [CHR 0x27]
             @ pattern @ [CHR 0x27])
            ''Rephrase to avoid generalizing statements. Use dimension-specific language instead.''
            (''copy.'' @ key) 10 st
        else st)"

fun scan_copy :: "bool \<Rightarrow> (string \<times> copy_value) list \<Rightarrow> audit_state \<Rightarrow> audit_state" where
  "scan_copy strict_mode [] st = st"
| "scan_copy strict_mode ((key, CopyDict field) # copy_data) st =
     scan_copy strict_mode copy_data (scan_patterns strict_mode key field essentializing_patterns st)"
| "scan_copy strict_mode ((key, CopyList entries) # copy_data) st =
     scan_copy strict_mode copy_data st"

text \<open>
  \<open>rationale and not any(dim in rationale.lower() for dim in [...])\<close>: an empty rationale
  is falsy and ends the test.
\<close>

definition lacks_dimension :: "module \<Rightarrow> bool" where
  "lacks_dimension mod_data =
     (let rationale = get_str (m_adaptation_rationale mod_data)
      in rationale \<noteq> [] \<and> \<not> list_ex (\<lambda>dim. str_contains (lower rationale) dim) dimension_tokens)"

fun scan_modules :: "(string \<times> module) list \<Rightarrow> audit_state \<Rightarrow> audit_state" where
  "scan_modules [] st = st"
| "scan_modules ((mod_name, mod_data) # modules) st =
     scan_modules modules
       (if lacks_dimension mod_data then
          raise_flag ''low''
            (''Module '' @ [CHR 0x27] @ mod_name @ [CHR 0x27]
             @ '' rationale may not reference specific behavioral dimensions'')
            ''Ensure rationale explicitly references dimension scores and mapping rules.''
            (''modules.'' @ mod_name) 5 st
        else st)"

text \<open>\<open>not adaptation.get("dimension_driver")\<close>: the key is missing or its text is empty.\<close>

definition lacks_driver :: "flow_adaptation \<Rightarrow> bool" where
  "lacks_driver adaptation = (get_str (fa_dimension_driver adaptation) = [])"

definition get_or_unknown :: "string option \<Rightarrow> string" where
  "get_or_unknown v = (case v of None \<Rightarrow> ''unknown'' | Some x \<Rightarrow> x)"

fun scan_adaptations :: "flow_step \<Rightarrow> flow_adaptation list \<Rightarrow> audit_state \<Rightarrow> audit_state" where
  "scan_adaptations step [] st = st"
| "scan_adaptations step (adaptation # rest) st =
     scan_adaptations step rest
       (if lacks_driver adaptation then
          raise_flag ''medium''
            (''Flow step '' @ [CHR 0x27] @ get_or_unknown (step_name step) @ [CHR 0x27]
             @ '' adaptation lacks dimension driver'')
            ''Add specific dimension and score that drives this adaptation.''
            (''flow.'' @ get_or_unknown (step_id step)) 8 st
        else st)"

definition step_adaptations :: "flow_step \<Rightarrow> flow_adaptation list" where
  "step_adaptations step = (case adaptations step of None \<Rightarrow> [] | Some xs \<Rightarrow> xs)"

fun scan_flow :: "flow_step list \<Rightarrow> audit_state \<Rightarrow> audit_state" where
  "scan_flow [] st = st"
| "scan_flow (step # flow) st = scan_flow flow (scan_adaptations step (step_adaptations step) st)"

definition rule_based_audit :: "variant \<Rightarrow> bool \<Rightarrow> audit_result" where
  "rule_based_audit v strict_mode =
     (let st0 = \<lparr>st_flags = [], st_score = 100, st_counter = 0\<rparr>;
          st1 = scan_copy strict_mode (v_copy v) st0;
          st2 = scan_modules (v_modules v) st1;
          st3 = scan_flow (v_flow v) st2;
          notes =
            (if length (st_flags st3) = 0
             then [''All adaptations include dimension-based justification''] else [])
            @ (if cp_evidence (v_cultural_profile v) \<noteq> []
               then [''Cultural profile includes evidence sources''] else [])
            @ (if cp_notes (v_cultural_profile v) \<noteq> []
               then [''Cultural profile acknowledges limitations in notes''] else []);
          score = (if strict_mode then max 0 (st_score st3 - 10) else st_score st3);
          score = max 0 (min 100 score)
      in \<lparr>audit_score = score,
          summary = ''Rule-based audit complete. Score: '' @ show_int score @ ''/100 with ''
                    @ show_nat (length (st_flags st3)) @ '' flags identified.'',
          risk_flags = st_flags st3,
          positive_notes = notes\<rparr>)"

text \<open>\<open>audit\<close>, given what the gateway does when it is called. The log line is not modelled.\<close>

definition audit :: "llm_response \<Rightarrow> variant \<Rightarrow> bool \<Rightarrow> py_error + audit_result stage_output" where
  "audit resp v strict_mode =
     (let result = generate_structured resp
      in case result_fallback result of
           Inl e \<Rightarrow> Inl e
         | Inr True \<Rightarrow> Inr (RuleBased (rule_based_audit v strict_mode))
         | Inr False \<Rightarrow>
             (case result of
                JObj d \<Rightarrow> Inr (FromGateway d)
              | _ \<Rightarrow> Inl (AttributeError ''get'')))"

text \<open>The audit as the specification words it: three counts and a clamp.\<close>

definition field_matches :: "copy_field \<Rightarrow> nat" where
  "field_matches field = length (filter (pattern_matches field) essentializing_patterns)"

text \<open>
  The matches in every copy field: in each dictionary entry, and in each entry of a
  list such as \<open>microcopy\<close>, which carries a text and a rationale as well.
\<close>

definition copy_matches :: "(string \<times> copy_value) list \<Rightarrow> nat" where
  "copy_matches copy_data =
     sum_list (map (\<lambda>(key, value).
                 case value of
                   CopyDict field \<Rightarrow> field_matches field
                 | CopyList entries \<Rightarrow> sum_list (map (\<lambda>(location, field). field_matches field) entries))
               copy_data)"

text \<open>The part of them that sits in the entries of the lists.\<close>

definition list_entry_matches :: "(string \<times> copy_value) list \<Rightarrow> nat" where
  "list_entry_matches copy_data =
     sum_list (map (\<lambda>(key, value).
                 case value of
                   CopyDict field \<Rightarrow> 0
                 | CopyList entries \<Rightarrow> sum_list (map (\<lambda>(location, field). field_matches field) entries))
               copy_data)"

definition count_pattern_matches :: "variant \<Rightarrow> nat" where
  "count_pattern_matches v = copy_matches (v_copy v)"

definition count_unjustified_modules :: "variant \<Rightarrow> nat" where
  "count_unjustified_modules v = length (filter (\<lambda>(mod_name, mod_data). lacks_dimension mod_data) (v_modules v))"

definition flow_missing :: "flow_step list \<Rightarrow> nat" where
  "flow_missing flow =
     sum_list (map (\<lambda>step. length (filter lacks_driver (step_adaptations step))) flow)"

definition count_missing_drivers :: "variant \<Rightarrow> nat" where
  "count_missing_drivers v = flow_missing (v_flow v)"

text \<open>
  Three variants for the audit: one whose only module carries an empty rationale; one
  whose only copy is a microcopy entry with essentializing text and rationale; and one
  with an essentializing call to action, a module rationale that names no dimension and a
  flow adaptation without a driver.
\<close>

definition neutral_profile :: cultural_profile where
  "neutral_profile =
     \<lparr>cp_country_code = ''XX'', cp_dimensions = default_dimensions, cp_evidence = [], cp_notes = []\<rparr>"

definition bare_rationale_variant :: variant where
  "bare_rationale_variant =
     \<lparr>v_region = ''XX'', v_theme_emphasis = ''balanced'', v_flow = [],
      v_modules =
        [(''reviews'', empty_module\<lparr>m_enabled := Some True, m_placement := Some ''above_fold'',
                                     m_adaptation_rationale := Some []\<rparr>)],
      v_copy = [], v_cultural_profile = neutral_profile\<rparr>"

definition flagged_variant :: variant where
  "flagged_variant =
     \<lparr>v_region = ''XX'', v_theme_emphasis = ''balanced'',
      v_flow =
        [\<lparr>step_id = Some ''checkout'', step_name = Some ''Checkout'',
          step_description = Some ''Checkout process'',
          adaptations =
            Some [\<lparr>fa_change = ''Fewer form fields'', fa_dimension_driver = None,
                   fa_rationale = ''Shorter is better''\<rparr>],
          required_fields = None, validations = None\<rparr>],
      v_modules =
        [(''reviews'', empty_module\<lparr>m_enabled := Some True,
                                     m_adaptation_rationale := Some ''Looks nicer''\<rparr>)],
      v_copy =
        [(''cta_primary'',
          CopyDict \<lparr>cf_text = Some ''People in this region always buy together'',
                    cf_rationale = Some ''Group framing''\<rparr>),
         (''microcopy'',
          CopyList [(''shipping_note'',
                     \<lparr>cf_text = Some ''Free standard shipping'',
                      cf_rationale = Some ''Context level=70: Concise shipping summary.''\<rparr>)])],
      v_cultural_profile = neutral_profile\<rparr>"

definition microcopy_variant :: variant where
  "microcopy_variant =
     \<lparr>v_region = ''XX'', v_theme_emphasis = ''balanced'', v_flow = [], v_modules = [],
      v_copy =
        [(''microcopy'',
          CopyList [(''price_area'',
                     \<lparr>cf_text = Some ''People in this region always pay more'',
                      cf_rationale = Some ''Typical of everyone in this market''\<rparr>)])],
      v_cultural_profile = neutral_profile\<rparr>"

definition clamp_score :: "int \<Rightarrow> int" where
  "clamp_score x = max 0 (min 100 x)"

subsection \<open>agents/experimentation.py\<close>

definition RULE_LIFT_FACTORS :: "(string \<times> rat) list" where
  "RULE_LIFT_FACTORS =
     [(''increase_trust_modules'', 5 / 100),
      (''increase_process_clarity'', 3 / 100),
      (''increase_explicit_info'', 4 / 100),
      (''increase_social_proof'', 6 / 100),
      (''reduce_checkout_steps'', 8 / 100),
      (''enhance_guarantees'', 4 / 100),
      (''value_framing'', 5 / 100),
      (''add_authority_signals'', 3 / 100),
      (''ambient_information'', 2 / 100),
      (''individual_framing'', 3 / 100)]"

definition BASELINE_RATES :: "(string \<times> rat) list" where
  "BASELINE_RATES =
     [(''electronics'', 21 / 10),
      (''fashion'', 28 / 10),
      (''food_beverage'', 35 / 10),
      (''home_garden'', 18 / 10),
      (''health_beauty'', 30 / 10)]"

text \<open>\<open>RULE_LIFT_FACTORS.get(key, default)\<close>.\<close>

definition lift_factor :: "string \<Rightarrow> rat \<Rightarrow> rat" where
  "lift_factor key dflt = (case map_of RULE_LIFT_FACTORS key of None \<Rightarrow> dflt | Some f \<Rightarrow> f)"

record applied_factor =
  af_rule :: string
  af_lift :: string

text \<open>
  The fields of the prediction that are computed. The explanatory texts (\<open>method\<close>,
  \<open>assumptions\<close>, \<open>ab_test_plan\<close>, \<open>rationale\<close>) are built from these and are left out.
\<close>

record prediction =
  metric :: string
  baseline :: rat
  predicted :: rat
  lift_percentage :: rat
  confidence_level :: string
  applied_factors :: "applied_factor list"

text \<open>
  One \<open>compound_factor *= (1 + factor); applied_factors.append(...)\<close> on the pair
  \<open>(compound_factor, applied_factors)\<close>.
\<close>

definition apply_signal :: "string \<Rightarrow> rat \<Rightarrow> rat \<times> applied_factor list \<Rightarrow> rat \<times> applied_factor list" where
  "apply_signal label factor s =
     (fst s * (1 + factor),
      snd s @ [\<lparr>af_rule = label, af_lift = ''+'' @ fmt_1f (factor * 100) @ ''%''\<rparr>])"

text \<open>The loop over the flow, left at the first \<open>express_checkout\<close> step.\<close>

fun checkout_signal :: "flow_step list \<Rightarrow> rat \<times> applied_factor list \<Rightarrow> rat \<times> applied_factor list" where
  "checkout_signal [] s = s"
| "checkout_signal (step # flow) s =
     (if step_id step = Some ''express_checkout''
      then apply_signal ''Checkout step reduction'' (lift_factor ''reduce_checkout_steps'' (8 / 100)) s
      else checkout_signal flow s)"

text \<open>The compound factor and the applied factors after all the checks.\<close>

definition signals :: "variant \<Rightarrow> rat \<times> applied_factor list" where
  "signals v =
     (let modules = v_modules v;
          s0 = (1, []);
          s1 = (if m_placement (modules_get modules ''reviews'') = Some ''above_fold''
                then apply_signal ''Social proof emphasis'' (lift_factor ''increase_social_proof'' (4 / 100)) s0
                else s0);
          s2 = (if m_prominence (modules_get modules ''guarantees'') = Some ''high''
                then apply_signal ''Enhanced guarantees'' (lift_factor ''enhance_guarantees'' (4 / 100)) s1
                else s1);
          s3 = (if m_placement (modules_get modules ''shipping_info'') = Some ''above_fold''
                then apply_signal ''Trust modules above fold'' (lift_factor ''increase_trust_modules'' (3 / 100)) s2
                else s2);
          s4 = (if m_show_installments (modules_get modules ''payment_options'') = Some True
                then apply_signal ''Value/installment framing'' (lift_factor ''value_framing'' (5 / 100)) s3
                else s3);
          s5 = (if m_enabled (modules_get modules ''social_proof'') = Some True
                    \<and> \<not> list_ex (\<lambda>f. str_contains (af_rule f) ''Social proof'') (snd s4)
                then apply_signal ''Social proof module'' (lift_factor ''increase_social_proof'' (4 / 100)) s4
                else s4)
      in checkout_signal (v_flow v) s5)"

text \<open>
  \<open>audit_result.get("audit_score", 80)\<close>, as a number that can be divided: the score of
  the rule-based audit, or the entry of the gateway's dictionary.
\<close>

definition audit_score_of :: "audit_result stage_output \<Rightarrow> py_error + rat" where
  "audit_score_of audit_result =
     (case audit_result of
        RuleBased a \<Rightarrow> Inr (of_int (audit_score a))
      | FromGateway d \<Rightarrow>
          (case map_of d ''audit_score'' of
             None \<Rightarrow> Inr 80
           | Some (JNum r) \<Rightarrow> Inr r
           | Some (JBool b) \<Rightarrow> Inr (if b then 1 else 0)
           | Some other \<Rightarrow> Inl (TypeError ''/'')))"

definition calculate_heuristic_lift :: "variant \<Rightarrow> audit_result stage_output \<Rightarrow> py_error + prediction" where
  "calculate_heuristic_lift v audit_result =
     (let base = 23 / 10;
          s = signals v;
          compound_factor = fst s;
          applied = snd s
      in case audit_score_of audit_result of
           Inl e \<Rightarrow> Inl e
         | Inr score \<Rightarrow>
             (let audit_multiplier = score / 100;
                  compound_factor = 1 + (compound_factor - 1) * audit_multiplier;
                  pred = py_round (base * compound_factor) 2;
                  lift_pct = py_round ((pred - base) / base * 100) 1;
                  num_factors = length applied;
                  confidence =
                    (if num_factors \<ge> 4 \<and> score \<ge> 80 then ''high''
                     else if num_factors \<ge> 2 \<and> score \<ge> 60 then ''medium''
                     else ''low'')
              in Inr \<lparr>metric = ''conversion_rate'',
                      baseline = base,
                      predicted = pred,
                      lift_percentage = lift_pct,
                      confidence_level = confidence,
                      applied_factors = applied\<rparr>))"

text \<open>
  \<open>predict\<close>: the heuristic, or the heuristic's figures with the gateway's texts when the
  gateway's dictionary is no fallback and has a \<open>confidence_level\<close>.
\<close>

datatype prediction_output = Heuristic prediction | Merged prediction pydict

definition predict :: "llm_response \<Rightarrow> variant \<Rightarrow> audit_result stage_output \<Rightarrow> py_error + prediction_output" where
  "predict resp v audit_result =
     (case calculate_heuristic_lift v audit_result of
        Inl e \<Rightarrow> Inl e
      | Inr heuristic \<Rightarrow>
          (let llm_result = generate_structured resp
           in case result_fallback llm_result of
                Inl e \<Rightarrow> Inl e
              | Inr True \<Rightarrow> Inr (Heuristic heuristic)
              | Inr False \<Rightarrow>
                  (case result_contains llm_result ''confidence_level'' of
                     Inl e \<Rightarrow> Inl e
                   | Inr False \<Rightarrow> Inr (Heuristic heuristic)
                   | Inr True \<Rightarrow>
                       (case llm_result of
                          JObj d \<Rightarrow> Inr (Merged heuristic d)
                        | _ \<Rightarrow> Inl (AttributeError ''get'')))))"

subsection \<open>orchestrator.py\<close>

text \<open>
  \<open>partial_variant\<close> as \<open>run_adaptation_pipeline\<close> assembles it from the rule-based UX
  output, and the pipeline from there on when every stage takes its rule-based path.
\<close>

definition partial_variant ::
  "string \<Rightarrow> ux_result \<Rightarrow> (string \<times> copy_value) list \<Rightarrow> cultural_profile \<Rightarrow> variant" where
  "partial_variant country_code ux_adaptations copy_variants profile =
     \<lparr>v_region = country_code,
      v_theme_emphasis = ux_theme_emphasis ux_adaptations,
      v_flow = ux_flow ux_adaptations,
      v_modules = ux_modules ux_adaptations,
      v_copy = copy_variants,
      v_cultural_profile = profile\<rparr>"

definition rule_based_pipeline ::
  "(rat \<Rightarrow> string) \<Rightarrow> cultural_profile \<Rightarrow> rule list \<Rightarrow> base_spec \<Rightarrow> string
     \<Rightarrow> (string \<times> copy_value) list \<Rightarrow> py_error + prediction" where
  "rule_based_pipeline frepr profile rules spec price_band copy_variants =
     (case rule_based_adaptation frepr (cp_dimensions profile) rules spec price_band of
        Inl e \<Rightarrow> Inl e
      | Inr ux \<Rightarrow>
          (let v = partial_variant (cp_country_code profile) ux copy_variants profile
           in calculate_heuristic_lift v (RuleBased (rule_based_audit v False))))"

text \<open>\<open>repr\<close> of a float of integral value, as in \<open>35.0\<close>.\<close>

definition repr_integral :: "rat \<Rightarrow> string" where
  "repr_integral r = show_int \<lfloor>r\<rfloor> @ ''.0''"

text \<open>
  What the checks keep true of \<open>(compound_factor, applied_factors)\<close>: the factor is 1
  while nothing is applied, and at least 1.04 once something is.
\<close>

definition fired_bound :: "rat \<times> applied_factor list \<Rightarrow> bool" where
  "fired_bound s = (if snd s = [] then fst s = 1 else 26 / 25 \<le> fst s)"

text \<open>A variant whose only signal is the prominent guarantee.\<close>

definition guarantee_variant :: variant where
  "guarantee_variant =
     \<lparr>v_region = ''JP'', v_theme_emphasis = ''trust-first'', v_flow = [],
      v_modules =
        [(''guarantees'', empty_module\<lparr>m_enabled := Some True, m_prominence := Some ''high'',
            m_adaptation_rationale := Some ''Trust need=88: Enhanced guarantee prominence''\<rparr>)],
      v_copy = [], v_cultural_profile = neutral_profile\<rparr>"

text \<open>
  The profile that the test fixture \<open>guatemala_dimensions\<close> describes, and a baseline
  whose flow has a shipping and a payment step.
\<close>

definition gt_dimensions :: dimensions where
  "gt_dimensions =
     [''uncertainty_avoidance'' \<mapsto> PyInt 55,
      ''collectivism'' \<mapsto> PyInt 72,
      ''authority_distance'' \<mapsto> PyInt 68,
      ''context_level'' \<mapsto> PyInt 70,
      ''price_sensitivity'' \<mapsto> PyInt 82,
      ''trust_need'' \<mapsto> PyInt 75,
      ''friction_tolerance'' \<mapsto> PyInt 35]"

definition gt_profile :: cultural_profile where
  "gt_profile =
     \<lparr>cp_country_code = ''GT'', cp_dimensions = gt_dimensions, cp_evidence = [], cp_notes = []\<rparr>"

definition plain_step :: "string \<Rightarrow> string \<Rightarrow> flow_step" where
  "plain_step sid name =
     \<lparr>step_id = Some sid, step_name = Some name, step_description = None,
      adaptations = None, required_fields = None, validations = None\<rparr>"

definition checkout_base_spec :: base_spec where
  "checkout_base_spec =
     \<lparr>bs_product_category = Some ''electronics'',
      bs_baseline_flow =
        [plain_step ''browse'' ''Browse'', plain_step ''cart'' ''Cart'',
         plain_step ''shipping'' ''Shipping'', plain_step ''payment'' ''Payment'',
         plain_step ''confirm'' ''Confirmation'']\<rparr>"

text \<open>What the low-friction loop makes of one baseline step.\<close>

definition streamlined :: "(rat \<Rightarrow> string) \<Rightarrow> dimensions \<Rightarrow> flow_step \<Rightarrow> flow_step list" where
  "streamlined frepr dims step =
     (if step_id step = Some ''shipping'' then [express_checkout frepr dims]
      else if step_id step \<noteq> Some ''payment'' then [step\<lparr>adaptations := Some []\<rparr>]
      else [])"

subsection \<open>variant_store.py\<close>

text \<open>
  \<^verbatim>\<open>self._store: dict[str, dict] = {}\<close>. The lock only serialises the calls, so
  each method is one atomic step on the dictionary.
\<close>

record 'v VariantStore =
  vs_store :: "string \<rightharpoonup> 'v"

definition VariantStore_init :: "'v VariantStore" where
  "VariantStore_init = \<lparr>vs_store = Map.empty\<rparr>"

definition store :: "'v VariantStore \<Rightarrow> string \<Rightarrow> 'v \<Rightarrow> 'v VariantStore" where
  "store s variant_id variant = s\<lparr>vs_store := (vs_store s)(variant_id \<mapsto> variant)\<rparr>"

definition get :: "'v VariantStore \<Rightarrow> string \<Rightarrow> 'v option" where
  "get s variant_id = vs_store s variant_id"

text \<open>A sequence of \<open>store\<close> calls, oldest first.\<close>

fun store_all :: "'v VariantStore \<Rightarrow> (string \<times> 'v) list \<Rightarrow> 'v VariantStore" where
  "store_all s [] = s"
| "store_all s ((variant_id, variant) # calls) = store_all (store s variant_id variant) calls"

section \<open>Properties\<close>

subsection \<open>Rule matcher\<close>

lemma prefix2: "prefix [a, b] s \<longleftrightarrow> prefix [a] s \<and> prefix [b] (drop 1 s)"
  by (cases s) (auto simp: prefix_Cons)

lemma rule_applies_states:
  assumes "dims (dimension r) = None \<or> states float r c t"
  shows "rule_applies float dims r = Inr (satisfied dims r c t)"
proof (cases "dims (dimension r)")
  case None
  then show ?thesis by (simp add: rule_applies_def satisfied_def)
next
  case (Some v)
  with assms have "states float r c t" by simp
  then show ?thesis
    by (cases c; cases "condition r")
       (auto simp: Some rule_applies_def satisfied_def states_def prefix2)
qed

lemma applicable_loop_filter:
  assumes "\<forall>r\<in>set rs. dims (dimension r) = None \<or> states float r (cmp r) (thr r)"
  shows "applicable_loop float dims rs acc =
         Inr (acc @ filter (\<lambda>r. satisfied dims r (cmp r) (thr r)) rs)"
  using assms
proof (induction rs arbitrary: acc)
  case Nil
  show ?case by simp
next
  case (Cons r rs)
  have r: "rule_applies float dims r = Inr (satisfied dims r (cmp r) (thr r))"
    using Cons.prems by (simp add: rule_applies_states)
  have rs: "\<forall>r\<in>set rs. dims (dimension r) = None \<or> states float r (cmp r) (thr r)"
    using Cons.prems by simp
  show ?case
    by (simp add: r Cons.IH [OF rs])
qed

text \<open>
  C7. When every rule of the table whose dimension the profile has states a comparator
  (one of \<open>>=\<close>, \<open><=\<close>, \<open>>\<close>, \<open><\<close>) and a threshold, the matcher returns, without error,
  exactly the rules whose test \<open>profile[dimension] comparator threshold\<close> holds, in the
  order of the table. A rule whose dimension the profile lacks is skipped whatever its
  condition says. The matcher reads the table and returns a list: it has no state to
  change, so the same inputs give the same list.
\<close>

theorem C7_matcher_is_ordered_filter:
  assumes "\<forall>r\<in>set (mapping_rules L).
             profile (dimension r) = None \<or> states float r (cmp r) (thr r)"
  shows "get_applicable_rules float L profile =
         Inr (filter (\<lambda>r. satisfied profile r (cmp r) (thr r)) (mapping_rules L))"
  using applicable_loop_filter [OF assms, of "[]"]
  by (simp add: get_applicable_rules_def get_mapping_rules_def)

theorem C7_matcher_witness:
  "get_applicable_rules float_digits jp_loader jp_dimensions =
     Inr [\<lparr>rule_id = ''UA_HIGH_TRUST'', dimension = ''uncertainty_avoidance'', condition = ''>=70''\<rparr>,
          \<lparr>rule_id = ''COL_HIGH_SOCIAL'', dimension = ''collectivism'', condition = ''>65''\<rparr>]"
proof -
  let ?cmp = "\<lambda>r. if condition r = ''>=70'' then GE else if condition r = ''<=40'' then LE
                   else if condition r = ''>65'' then GT else LT"
  let ?thr = "\<lambda>r. if condition r = ''>=70'' then 70 else if condition r = ''<=40'' then 40
                   else if condition r = ''>65'' then 65 else (35 :: rat)"
  have h: "\<forall>r\<in>set (mapping_rules jp_loader).
             jp_dimensions (dimension r) = None \<or> states float_digits r (?cmp r) (?thr r)"
    by (simp add: jp_loader_def example_rules_def jp_dimensions_def states_def
        float_digits_def digit_val_def)
  show ?thesis
    using C7_matcher_is_ordered_filter [of jp_loader jp_dimensions float_digits ?cmp ?thr, OF h]
    by (simp add: jp_loader_def example_rules_def jp_dimensions_def satisfied_def)
qed

subsection \<open>Profile resolver\<close>

lemma override_step_None:
  "d k = None \<Longrightarrow> (case d a of None \<Rightarrow> d | Some old \<Rightarrow> d(a \<mapsto> b)) k = None"
  by (cases "d a") auto

lemma override_step_dom:
  "dom (case d a of None \<Rightarrow> d | Some old \<Rightarrow> d(a \<mapsto> b)) = dom d"
  by (cases "d a") auto

lemma apply_overrides_None: "d k = None \<Longrightarrow> apply_overrides d ovs k = None"
proof (induction ovs arbitrary: d)
  case Nil
  then show ?case by simp
next
  case (Cons kv ovs)
  obtain a b where kv: "kv = (a, b)" by (cases kv)
  show ?case
    using Cons.IH [of "case d a of None \<Rightarrow> d | Some old \<Rightarrow> d(a \<mapsto> b)"]
      override_step_None [of d k a b, OF Cons.prems]
    by (simp add: kv)
qed

lemma dom_apply_overrides: "dom (apply_overrides d ovs) = dom d"
proof (induction ovs arbitrary: d)
  case Nil
  show ?case by simp
next
  case (Cons kv ovs)
  obtain a b where kv: "kv = (a, b)" by (cases kv)
  show ?case
    unfolding kv apply_overrides.simps
    by (simp only: Cons.IH override_step_dom)
qed

lemma apply_overrides_other:
  "k \<notin> fst ` set ovs \<Longrightarrow> apply_overrides d ovs k = d k"
proof (induction ovs arbitrary: d)
  case Nil
  show ?case by simp
next
  case (Cons kv ovs)
  obtain a b where kv: "kv = (a, b)" by (cases kv)
  have "k \<noteq> a" and "k \<notin> fst ` set ovs" using Cons.prems by (auto simp: kv)
  then show ?case
    by (cases "d a") (simp_all add: kv Cons.IH)
qed

lemma apply_overrides_hit:
  "distinct (map fst ovs) \<Longrightarrow> (k, v) \<in> set ovs \<Longrightarrow> d k \<noteq> None \<Longrightarrow>
   apply_overrides d ovs k = Some v"
proof (induction d ovs rule: apply_overrides.induct)
  case (1 d)
  then show ?case by simp
next
  case (2 d dim_key dim_value overrides)
  show ?case
  proof (cases "(k, v) = (dim_key, dim_value)")
    case True
    then have "k \<notin> fst ` set overrides" using "2.prems"(1) by auto
    then show ?thesis using True "2.prems"(3)
      by (auto simp: apply_overrides_other)
  next
    case False
    then have "(k, v) \<in> set overrides" using "2.prems"(2) by auto
    moreover have "distinct (map fst overrides)" using "2.prems"(1) by simp
    moreover have "(case d dim_key of None \<Rightarrow> d | Some old \<Rightarrow> d(dim_key \<mapsto> dim_value)) k \<noteq> None"
      using "2.prems"(3) by (auto split: option.splits)
    ultimately show ?thesis using "2.IH" by simp
  qed
qed

lemma apply_overrides_range:
  "\<forall>k v. d k = Some v \<longrightarrow> in_range v \<Longrightarrow> list_all (\<lambda>(k, v). in_range v) ovs \<Longrightarrow>
   apply_overrides d ovs k = Some v \<Longrightarrow> in_range v"
proof (induction ovs arbitrary: d)
  case Nil
  then show ?case by simp
next
  case (Cons kv ovs)
  obtain a b where kv: "kv = (a, b)" by (cases kv)
  let ?d = "case d a of None \<Rightarrow> d | Some old \<Rightarrow> d(a \<mapsto> b)"
  have b: "in_range b" and rest: "list_all (\<lambda>(k, v). in_range v) ovs"
    using Cons.prems(2) by (simp_all add: kv)
  have d: "\<forall>k v. ?d k = Some v \<longrightarrow> in_range v"
    using Cons.prems(1) b by (cases "d a") auto
  have "apply_overrides ?d ovs k = Some v"
    using Cons.prems(3) by (simp add: kv)
  then show ?case by (rule Cons.IH [OF d rest])
qed

lemma valid_dimensions_iff:
  "valid_dimensions d \<longleftrightarrow> dom d = set DIMENSION_KEYS \<and> (\<forall>k v. d k = Some v \<longrightarrow> in_range v)"
proof -
  have "(\<forall>k\<in>set DIMENSION_KEYS. case d k of None \<Rightarrow> False | Some v \<Rightarrow> in_range v)
        \<longleftrightarrow> (\<forall>k v. d k = Some v \<longrightarrow> in_range v)" if "dom d = set DIMENSION_KEYS"
    using that by (fastforce split: option.splits)
  then show ?thesis by (auto simp: valid_dimensions_def list_all_iff)
qed

lemma valid_apply_overrides:
  assumes "valid_dimensions d" "list_all (\<lambda>(k, v). in_range v) ovs"
  shows "valid_dimensions (apply_overrides d ovs)"
  using assms apply_overrides_range [of d ovs]
  by (auto simp: valid_dimensions_iff dom_apply_overrides)

lemma valid_default: "valid_dimensions default_dimensions"
  by (auto simp: valid_dimensions_def default_dimensions_def DIMENSION_KEYS_def in_range_def)

lemma generate_unavailable:
  "unavailable resp \<Longrightarrow> result_contains (generate_structured resp) ''dimensions'' = Inr False"
  by (cases resp) (simp_all add: result_contains_def has_key_def fallback_response_def)


lemma analyze_absent:
  assumes "cultural_priors L cc = None"
  shows "analyze L resp cc cat ovs = (Inr (Resolved (fst (default_profile L cc))), snd (default_profile L cc))"
  using assms
  by (simp add: analyze_def get_cultural_prior_with_overrides_def get_cultural_prior_def
      default_profile_def)

lemma analyze_present:
  assumes "cultural_priors L cc = Some prior" "unavailable resp"
  shows "\<exists>p L'. analyze L resp cc cat ovs = (Inr (Resolved p), L')
          \<and> pr_dimensions p = sp_dimensions prior
          \<and> heap L' (sp_dimensions prior) =
              apply_overrides (heap L (sp_dimensions prior)) (case ovs of None \<Rightarrow> [] | Some x \<Rightarrow> x)"
  using assms
  by (cases "case ovs of None \<Rightarrow> [] | Some x \<Rightarrow> x")
     (simp_all add: analyze_def get_cultural_prior_with_overrides_def get_cultural_prior_def
       generate_unavailable base_profile_def Let_def)


text \<open>
  C2. With stored priors that hold exactly the seven dimensions within \<open>[0, 100]\<close> and
  overrides within \<open>[0, 100]\<close>, \<open>analyze\<close> on its path without enrichment returns a
  profile with exactly the seven dimensions, each within \<open>[0, 100]\<close>. For a region
  without a stored prior it returns the neutral profile: every dimension 50, one
  synthetic evidence entry and the explanatory note.
\<close>

theorem C2_resolver_returns_valid_profile:
  assumes stored: "\<forall>prior. cultural_priors L cc = Some prior \<longrightarrow>
                     valid_dimensions (heap L (sp_dimensions prior))"
    and ovs: "list_all (\<lambda>(k, v). in_range v) (case overrides of None \<Rightarrow> [] | Some x \<Rightarrow> x)"
    and un: "unavailable resp"
  shows "\<exists>p L'. analyze L resp cc category overrides = (Inr (Resolved p), L')
           \<and> dom (profile_dimensions L' p) = set DIMENSION_KEYS
           \<and> (\<forall>k v. profile_dimensions L' p k = Some v \<longrightarrow> 0 \<le> num_val v \<and> num_val v \<le> 100)
           \<and> (cultural_priors L cc = None \<longrightarrow>
                (\<forall>k\<in>set DIMENSION_KEYS. profile_dimensions L' p k = Some (PyInt 50))
                \<and> pr_evidence p =
                    [\<lparr>ev_source = ''Default baseline'',
                      ev_description = ''No specific cultural data available; using neutral midpoint values.''\<rparr>]
                \<and> pr_notes p = ''No cultural priors available for '' @ cc @ ''. Using default neutral values.'')"
proof (cases "cultural_priors L cc")
  case None
  have "valid_dimensions default_dimensions" by (rule valid_default)
  then have "dom default_dimensions = set DIMENSION_KEYS"
    and "\<forall>k v. default_dimensions k = Some v \<longrightarrow> 0 \<le> num_val v \<and> num_val v \<le> 100"
    by (simp_all add: valid_dimensions_iff in_range_def)
  moreover have "\<forall>k\<in>set DIMENSION_KEYS. default_dimensions k = Some (PyInt 50)"
    by (simp add: DIMENSION_KEYS_def default_dimensions_def)
  ultimately show ?thesis
    by (simp add: analyze_absent [OF None] default_profile_def profile_dimensions_def)
next
  case (Some prior)
  from analyze_present [OF Some un, of category overrides]
  obtain p L' where a: "analyze L resp cc category overrides = (Inr (Resolved p), L')"
    and p: "pr_dimensions p = sp_dimensions prior"
    and h: "heap L' (sp_dimensions prior) =
            apply_overrides (heap L (sp_dimensions prior)) (case overrides of None \<Rightarrow> [] | Some x \<Rightarrow> x)"
    by blast
  have "valid_dimensions (heap L (sp_dimensions prior))"
    using stored Some by simp
  then have "valid_dimensions (profile_dimensions L' p)"
    using ovs by (simp add: profile_dimensions_def p h valid_apply_overrides)
  then show ?thesis
    using a Some by (simp add: valid_dimensions_iff in_range_def)
qed

theorem C2_resolver_witness:
  "(\<exists>p L'. analyze jp_loader NotConfigured ''JP'' ''electronics'' (Some [(''collectivism'', PyInt 30)])
              = (Inr (Resolved p), L')
           \<and> dom (profile_dimensions L' p) = set DIMENSION_KEYS
           \<and> profile_dimensions L' p ''collectivism'' = Some (PyInt 30))
   \<and> (\<exists>p L'. analyze empty_loader NotConfigured ''XX'' ''electronics'' None = (Inr (Resolved p), L')
           \<and> profile_dimensions L' p ''trust_need'' = Some (PyInt 50))"
proof -
  have jp: "\<forall>prior. cultural_priors jp_loader ''JP'' = Some prior \<longrightarrow>
              valid_dimensions (heap jp_loader (sp_dimensions prior))"
    by (auto simp: jp_loader_def valid_dimensions_def jp_dimensions_def DIMENSION_KEYS_def in_range_def)
  have o: "list_all (\<lambda>(k, v). in_range v)
             (case Some [(''collectivism'', PyInt 30)] of None \<Rightarrow> [] | Some x \<Rightarrow> x)"
    by (simp add: in_range_def)
  have xx: "\<forall>prior. cultural_priors empty_loader ''XX'' = Some prior \<longrightarrow>
              valid_dimensions (heap empty_loader (sp_dimensions prior))"
    by (simp add: empty_loader_def)
  have n: "list_all (\<lambda>(k, v). in_range v) (case None of None \<Rightarrow> [] | Some x \<Rightarrow> x)"
    by simp
  have u: "unavailable NotConfigured" by simp
  have 1: "\<exists>p L'. analyze jp_loader NotConfigured ''JP'' ''electronics'' (Some [(''collectivism'', PyInt 30)])
              = (Inr (Resolved p), L')
           \<and> dom (profile_dimensions L' p) = set DIMENSION_KEYS
           \<and> profile_dimensions L' p ''collectivism'' = Some (PyInt 30)"
    using C2_resolver_returns_valid_profile [OF jp o u, of "''electronics''"]
    by (auto simp: analyze_def get_cultural_prior_with_overrides_def get_cultural_prior_def
        jp_loader_def jp_dimensions_def profile_dimensions_def base_profile_def
        result_contains_def has_key_def fallback_response_def)
  have 2: "\<exists>p L'. analyze empty_loader NotConfigured ''XX'' ''electronics'' None = (Inr (Resolved p), L')
           \<and> profile_dimensions L' p ''trust_need'' = Some (PyInt 50)"
    using C2_resolver_returns_valid_profile [OF xx n u, of "''electronics''"]
    by (auto simp: empty_loader_def DIMENSION_KEYS_def)
  from 1 2 show ?thesis by blast
qed

text \<open>
  C3 (amended). For a country code that has a stored prior with the seven dimensions, on
  the path without enrichment: an override whose key is one of the seven dimension keys
  yields exactly that value for that dimension in the resolved profile; an override with
  an unknown key raises nothing and the key is not in the resolved profile. The overrides
  are a dictionary: their keys are distinct.
\<close>

theorem C3_overrides_on_stored_prior:
  assumes prior: "cultural_priors L cc = Some prior"
    and keys: "dom (heap L (sp_dimensions prior)) = set DIMENSION_KEYS"
    and dict: "distinct (map fst ovs)"
    and un: "unavailable resp"
  shows "\<exists>p L'. analyze L resp cc category (Some ovs) = (Inr (Resolved p), L')
           \<and> (\<forall>k v. k \<in> set DIMENSION_KEYS \<and> (k, v) \<in> set ovs \<longrightarrow>
                  profile_dimensions L' p k = Some v)
           \<and> (\<forall>k. k \<notin> set DIMENSION_KEYS \<longrightarrow> profile_dimensions L' p k = None)"
proof -
  let ?d = "heap L (sp_dimensions prior)"
  from analyze_present [OF prior un, of category "Some ovs"]
  obtain p L' where a: "analyze L resp cc category (Some ovs) = (Inr (Resolved p), L')"
    and p: "pr_dimensions p = sp_dimensions prior"
    and h: "heap L' (sp_dimensions prior) = apply_overrides ?d ovs"
    by auto
  have pd: "profile_dimensions L' p = apply_overrides ?d ovs"
    by (simp add: profile_dimensions_def p h)
  have hit: "profile_dimensions L' p k = Some v" if "k \<in> set DIMENSION_KEYS" "(k, v) \<in> set ovs" for k v
  proof -
    have "?d k \<noteq> None" using that(1) keys by auto
    then show ?thesis using dict that(2) by (simp add: pd apply_overrides_hit)
  qed
  have miss: "profile_dimensions L' p k = None" if "k \<notin> set DIMENSION_KEYS" for k
  proof -
    have "?d k = None" using that keys by auto
    then show ?thesis by (simp add: pd apply_overrides_None)
  qed
  from a hit miss show ?thesis by blast
qed

theorem C3_overrides_witness:
  "resolved_dimension
     (analyze jp_loader NotConfigured ''JP'' ''electronics''
        (Some [(''uncertainty_avoidance'', PyInt 50), (''brand_loyalty'', PyInt 90)]))
     ''uncertainty_avoidance'' = Some (PyInt 50)
   \<and> resolved_dimension
     (analyze jp_loader NotConfigured ''JP'' ''electronics''
        (Some [(''uncertainty_avoidance'', PyInt 50), (''brand_loyalty'', PyInt 90)]))
     ''brand_loyalty'' = None"
proof -
  have prior: "cultural_priors jp_loader ''JP'' =
        Some \<lparr>sp_country_name = Some ''Japan'', sp_dimensions = 0,
              sp_evidence = [], sp_notes = ''Population-level tendencies.''\<rparr>"
    by (simp add: jp_loader_def)
  have keys: "dom (heap jp_loader (sp_dimensions \<lparr>sp_country_name = Some ''Japan'', sp_dimensions = 0,
              sp_evidence = [], sp_notes = ''Population-level tendencies.''\<rparr>)) = set DIMENSION_KEYS"
    by (auto simp: jp_loader_def jp_dimensions_def DIMENSION_KEYS_def)
  have dict: "distinct (map fst [(''uncertainty_avoidance'', PyInt 50), (''brand_loyalty'', PyInt 90)])"
    by simp
  have un: "unavailable NotConfigured" by simp
  let ?ovs = "[(''uncertainty_avoidance'', PyInt 50), (''brand_loyalty'', PyInt 90)]"
  from C3_overrides_on_stored_prior [OF prior keys dict un, of "''electronics''"]
  obtain p L' where a: "analyze jp_loader NotConfigured ''JP'' ''electronics'' (Some ?ovs)
                        = (Inr (Resolved p), L')"
    and hit: "\<And>k v. k \<in> set DIMENSION_KEYS \<Longrightarrow> (k, v) \<in> set ?ovs \<Longrightarrow>
                profile_dimensions L' p k = Some v"
    and miss: "\<And>k. k \<notin> set DIMENSION_KEYS \<Longrightarrow> profile_dimensions L' p k = None"
    by blast
  have "profile_dimensions L' p ''uncertainty_avoidance'' = Some (PyInt 50)"
    by (rule hit) (simp_all add: DIMENSION_KEYS_def)
  moreover have "profile_dimensions L' p ''brand_loyalty'' = None"
    by (rule miss) (simp add: DIMENSION_KEYS_def)
  ultimately show ?thesis
    by (simp add: a resolved_dimension_def)
qed

text \<open>
  C3 as stated fails for a country code without a stored prior: \<open>analyze\<close> returns the
  neutral profile and the override is not applied.
\<close>

theorem C3_unknown_region_counterexample:
  "resolved_dimension
     (analyze empty_loader NotConfigured ''XX'' ''electronics'' (Some [(''collectivism'', PyInt 30)]))
     ''collectivism'' = Some (PyInt 50)"
  by (simp add: resolved_dimension_def analyze_def get_cultural_prior_with_overrides_def
      get_cultural_prior_def empty_loader_def default_profile_def profile_dimensions_def
      default_dimensions_def)

text \<open>
  C6. Resolving with overrides assigns into the stored prior's own dimensions
  dictionary: after one call with an override for \<open>uncertainty_avoidance\<close> the loader's
  stored prior for that region holds the override, and a later resolution without
  overrides reports it.
\<close>

theorem C6_override_writes_stored_prior:
  "stored_dimension jp_loader ''JP'' ''uncertainty_avoidance'' = Some (PyInt 82)
   \<and> stored_dimension jp_loader_overridden ''JP'' ''uncertainty_avoidance'' = Some (PyInt 50)
   \<and> resolved_dimension
        (analyze jp_loader_overridden NotConfigured ''JP'' ''electronics'' None)
        ''uncertainty_avoidance'' = Some (PyInt 50)"
proof -
  have prior: "cultural_priors jp_loader ''JP'' =
        Some \<lparr>sp_country_name = Some ''Japan'', sp_dimensions = 0,
              sp_evidence = [], sp_notes = ''Population-level tendencies.''\<rparr>"
    by (simp add: jp_loader_def)
  have h0: "heap jp_loader 0 = jp_dimensions"
    by (simp add: jp_loader_def)
  have L1: "jp_loader_overridden =
        jp_loader\<lparr>heap := (heap jp_loader)(0 := jp_dimensions(''uncertainty_avoidance'' \<mapsto> PyInt 50))\<rparr>"
    by (simp add: jp_loader_overridden_def get_cultural_prior_with_overrides_def
        get_cultural_prior_def prior h0) (simp add: jp_dimensions_def)
  have before: "stored_dimension jp_loader ''JP'' ''uncertainty_avoidance'' = Some (PyInt 82)"
    by (simp add: stored_dimension_def prior h0) (simp add: jp_dimensions_def)
  have after: "stored_dimension jp_loader_overridden ''JP'' ''uncertainty_avoidance'' = Some (PyInt 50)"
    by (simp add: stored_dimension_def L1 prior)
  have later: "resolved_dimension
        (analyze jp_loader_overridden NotConfigured ''JP'' ''electronics'' None)
        ''uncertainty_avoidance'' = Some (PyInt 50)"
    by (simp add: L1 resolved_dimension_def analyze_def get_cultural_prior_with_overrides_def
        get_cultural_prior_def prior profile_dimensions_def base_profile_def
        result_contains_def has_key_def fallback_response_def)
  from before after later show ?thesis by blast
qed
subsection \<open>Compliance audit\<close>

lemma raise_flag_score [simp]: "st_score (raise_flag sev d r e p st) = st_score st - p"
  by (simp add: raise_flag_def)

lemma raise_flag_severity [simp]:
  "map severity (st_flags (raise_flag sev d r e p st)) = map severity (st_flags st) @ [sev]"
  by (simp add: raise_flag_def)

lemma scan_patterns_effect:
  "st_score (scan_patterns strict key field ps st) =
     st_score st - 10 * int (length (filter (pattern_matches field) ps))
   \<and> map severity (st_flags (scan_patterns strict key field ps st)) =
     map severity (st_flags st)
     @ replicate (length (filter (pattern_matches field) ps)) (if strict then ''high'' else ''medium'')"
  by (induction ps arbitrary: st) (simp_all add: replicate_append_same)

lemma scan_patterns_matches:
  "st_score (scan_patterns strict key field essentializing_patterns st) =
     st_score st - 10 * int (field_matches field)
   \<and> map severity (st_flags (scan_patterns strict key field essentializing_patterns st)) =
     map severity (st_flags st)
     @ replicate (field_matches field) (if strict then ''high'' else ''medium'')"
  unfolding field_matches_def by (rule scan_patterns_effect)

lemma scan_copy_effect:
  assumes "list_entry_matches cs = 0"
  shows "st_score (scan_copy strict cs st) = st_score st - 10 * int (copy_matches cs)
   \<and> map severity (st_flags (scan_copy strict cs st)) =
     map severity (st_flags st)
     @ replicate (copy_matches cs) (if strict then ''high'' else ''medium'')"
  using assms
proof (induction strict cs st rule: scan_copy.induct)
  case (1 strict_mode st)
  show ?case by (simp add: copy_matches_def)
next
  case (2 strict_mode key field copy_data st)
  have rest: "list_entry_matches copy_data = 0"
    using "2.prems" by (simp add: list_entry_matches_def)
  have "copy_matches ((key, CopyDict field) # copy_data) = field_matches field + copy_matches copy_data"
    by (simp add: copy_matches_def)
  then show ?case
    using "2.IH" [OF rest] by (simp add: scan_patterns_matches replicate_add)
next
  case (3 strict_mode key entries copy_data st)
  have here: "sum_list (map (\<lambda>(location, field). field_matches field) entries) = 0"
    and rest: "list_entry_matches copy_data = 0"
    using "3.prems" by (simp_all add: list_entry_matches_def)
  have "copy_matches ((key, CopyList entries) # copy_data) = copy_matches copy_data"
    using here by (simp add: copy_matches_def)
  then show ?case using "3.IH" [OF rest] by simp
qed

lemma scan_modules_effect:
  "st_score (scan_modules ms st) =
     st_score st - 5 * int (length (filter (\<lambda>(mod_name, mod_data). lacks_dimension mod_data) ms))
   \<and> map severity (st_flags (scan_modules ms st)) =
     map severity (st_flags st)
     @ replicate (length (filter (\<lambda>(mod_name, mod_data). lacks_dimension mod_data) ms)) ''low''"
  by (induction ms st rule: scan_modules.induct) (simp_all add: replicate_append_same)

lemma scan_adaptations_effect:
  "st_score (scan_adaptations step as st) = st_score st - 8 * int (length (filter lacks_driver as))
   \<and> map severity (st_flags (scan_adaptations step as st)) =
     map severity (st_flags st) @ replicate (length (filter lacks_driver as)) ''medium''"
  by (induction as arbitrary: st) (simp_all add: replicate_append_same)

lemma scan_flow_effect:
  "st_score (scan_flow flow st) = st_score st - 8 * int (flow_missing flow)
   \<and> map severity (st_flags (scan_flow flow st)) =
     map severity (st_flags st) @ replicate (flow_missing flow) ''medium''"
  by (induction flow arbitrary: st)
     (simp_all add: flow_missing_def scan_adaptations_effect replicate_add)

text \<open>
  C1 (amended). For a variant in which no entry of a list-valued copy field (such as
  \<open>microcopy\<close>) contains an essentializing pattern: the rule-based audit starts from 100;
  each essentializing pattern found in the text or the rationale of a copy field gives
  one flag of severity \<open>medium\<close> (\<open>high\<close> under strict mode) and costs 10; each module
  whose rationale is not empty and names none of the dimension tokens gives a \<open>low\<close> flag
  and costs 5; each flow adaptation without a non-empty dimension driver gives a
  \<open>medium\<close> flag and costs 8; strict mode costs 10 more after all that; the result is
  clamped to \<open>[0, 100]\<close>. The flags come in that order. A module with an empty rationale
  gives no flag.
\<close>

theorem C1_audit_score_and_flags:
  assumes "list_entry_matches (v_copy v) = 0"
  shows "audit_score (rule_based_audit v strict_mode) =
     clamp_score (100 - 10 * int (count_pattern_matches v)
                      - 5 * int (count_unjustified_modules v)
                      - 8 * int (count_missing_drivers v)
                      - (if strict_mode then 10 else 0))
   \<and> map severity (risk_flags (rule_based_audit v strict_mode)) =
     replicate (count_pattern_matches v) (if strict_mode then ''high'' else ''medium'')
     @ replicate (count_unjustified_modules v) ''low''
     @ replicate (count_missing_drivers v) ''medium''"
  by (simp add: rule_based_audit_def Let_def scan_flow_effect scan_modules_effect
      scan_copy_effect [OF assms] count_pattern_matches_def count_missing_drivers_def
      count_unjustified_modules_def clamp_score_def)

theorem C1_audit_witness:
  "audit_score (rule_based_audit flagged_variant True) = 57
   \<and> map severity (risk_flags (rule_based_audit flagged_variant True)) =
       [''high'', ''high'', ''low'', ''medium'']"
proof -
  have L: "list_entry_matches (v_copy flagged_variant) = 0" by code_simp
  have E: "count_pattern_matches flagged_variant = 2" by code_simp
  have M: "count_unjustified_modules flagged_variant = 1" by code_simp
  have F: "count_missing_drivers flagged_variant = 1" by code_simp
  show ?thesis
    using C1_audit_score_and_flags [OF L, of True]
    by (simp add: E M F clamp_score_def numeral_eq_Suc)
qed

text \<open>
  C1 as stated fails twice. On a module that carries an empty rationale the audit gives
  no flag and keeps the score at 100. On a microcopy entry whose text and rationale hold
  four of the patterns the audit gives no flag either, and keeps the score at 100.
\<close>

theorem C1_unflagged_counterexample:
  "audit_score (rule_based_audit bare_rationale_variant False) = 100
   \<and> risk_flags (rule_based_audit bare_rationale_variant False) = []
   \<and> count_pattern_matches microcopy_variant = 4
   \<and> audit_score (rule_based_audit microcopy_variant False) = 100
   \<and> risk_flags (rule_based_audit microcopy_variant False) = []"
proof -
  have "audit_score (rule_based_audit bare_rationale_variant False) = 100
        \<and> risk_flags (rule_based_audit bare_rationale_variant False) = []"
    by (simp add: rule_based_audit_def bare_rationale_variant_def lacks_dimension_def get_str_def
        empty_module_def)
  moreover have "count_pattern_matches microcopy_variant = 4" by code_simp
  moreover have "audit_score (rule_based_audit microcopy_variant False) = 100
        \<and> risk_flags (rule_based_audit microcopy_variant False) = []"
    by (simp add: rule_based_audit_def microcopy_variant_def)
  ultimately show ?thesis by blast
qed

subsection \<open>Degradation to the rule-based path\<close>

lemma audit_score_of_RuleBased: "audit_score_of (RuleBased a) = Inr (of_int (audit_score a))"
  by (simp add: audit_score_of_def)

text \<open>
  C4. When the service answers with text that is not JSON, \<open>generate_structured\<close> returns
  an error dictionary without the \<open>fallback\<close> mark; the UX stage and the audit stage hand
  that dictionary on as their output, where on an unconfigured service they compute their
  rule-based result. The prediction stage keeps its heuristic in both cases.
\<close>

theorem C4_malformed_result_is_returned:
  "adapt float frepr empty_loader (Malformed e) profile None price_band audience =
     Inr (FromGateway [(''error'', JStr e),
                       (''rationale'', JStr ''Failed to parse LLM response as JSON'')])
   \<and> audit (Malformed e) v strict_mode =
     Inr (FromGateway [(''error'', JStr e),
                       (''rationale'', JStr ''Failed to parse LLM response as JSON'')])
   \<and> audit NotConfigured v strict_mode = Inr (RuleBased (rule_based_audit v strict_mode))
   \<and> predict (Malformed e) v (RuleBased a) =
     map_sum id Heuristic (calculate_heuristic_lift v (RuleBased a))"
proof -
  have rules: "get_applicable_rules float empty_loader (cp_dimensions profile) = Inr []"
    by (simp add: get_applicable_rules_def get_mapping_rules_def empty_loader_def)
  have ux: "adapt float frepr empty_loader (Malformed e) profile None price_band audience =
     Inr (FromGateway [(''error'', JStr e),
                       (''rationale'', JStr ''Failed to parse LLM response as JSON'')])"
    by (simp add: adapt_def rules result_fallback_def get_truthy_def Let_def)
  have au: "audit (Malformed e) v strict_mode =
     Inr (FromGateway [(''error'', JStr e),
                       (''rationale'', JStr ''Failed to parse LLM response as JSON'')])"
    by (simp add: audit_def result_fallback_def get_truthy_def)
  have av: "audit NotConfigured v strict_mode = Inr (RuleBased (rule_based_audit v strict_mode))"
    by (simp add: audit_def result_fallback_def get_truthy_def fallback_response_def)
  have pr: "predict (Malformed e) v (RuleBased a) =
     map_sum id Heuristic (calculate_heuristic_lift v (RuleBased a))"
    by (simp add: predict_def result_fallback_def get_truthy_def result_contains_def has_key_def
        calculate_heuristic_lift_def audit_score_of_RuleBased Let_def)
  from ux au av pr show ?thesis by blast
qed

subsection \<open>Impact prediction\<close>

lemma round_half_even_bounds:
  "of_int (round_half_even x) \<le> x + 1 / 2 \<and> x - 1 / 2 \<le> of_int (round_half_even x)"
  unfolding round_half_even_def Let_def
  by (auto; linarith)

lemma round_half_even_floor: "\<lfloor>x\<rfloor> \<le> round_half_even x \<and> round_half_even x \<le> \<lfloor>x\<rfloor> + 1"
  unfolding round_half_even_def Let_def by auto

lemma round_half_even_mono:
  assumes "x \<le> y"
  shows "round_half_even x \<le> round_half_even y"
proof (cases "\<lfloor>x\<rfloor> = \<lfloor>y\<rfloor>")
  case True
  have "x - of_int \<lfloor>x\<rfloor> \<le> y - of_int \<lfloor>x\<rfloor>" using assms by simp
  then show ?thesis
    unfolding round_half_even_def Let_def True [symmetric]
    by auto
next
  case False
  then have "\<lfloor>x\<rfloor> < \<lfloor>y\<rfloor>" using floor_mono [OF assms] by simp
  then have "round_half_even x \<le> \<lfloor>y\<rfloor>"
    using round_half_even_floor [of x] by linarith
  then show ?thesis using round_half_even_floor [of y] by linarith
qed

lemma py_round_mono: "x \<le> y \<Longrightarrow> py_round x n \<le> py_round y n"
  unfolding py_round_def
  by (intro divide_right_mono, simp add: round_half_even_mono mult_right_mono) simp

lemma py_round_zero: "py_round 0 n = 0"
  by (simp add: py_round_def round_half_even_def)


lemma fired_bound_apply:
  assumes "fired_bound s" "4 / 100 \<le> f"
  shows "fired_bound (apply_signal l f s)"
proof -
  have "1 \<le> fst s" using assms(1) by (auto simp: fired_bound_def split: if_splits)
  moreover have "26 / 25 \<le> 1 + f" using assms(2) by simp
  ultimately have "1 * (26 / 25) \<le> fst s * (1 + f)"
    by (intro mult_mono) simp_all
  then show ?thesis by (simp add: fired_bound_def apply_signal_def)
qed

lemma fired_bound_if:
  "fired_bound s \<Longrightarrow> 4 / 100 \<le> f \<Longrightarrow> fired_bound (if c then apply_signal l f s else s)"
  by (simp add: fired_bound_apply)

lemma lift_factor_values:
  "lift_factor ''increase_social_proof'' d = 6 / 100"
  "lift_factor ''enhance_guarantees'' d = 4 / 100"
  "lift_factor ''increase_trust_modules'' d = 5 / 100"
  "lift_factor ''value_framing'' d = 5 / 100"
  "lift_factor ''reduce_checkout_steps'' d = 8 / 100"
  by (simp_all add: lift_factor_def RULE_LIFT_FACTORS_def)

lemma fired_bound_checkout: "fired_bound s \<Longrightarrow> fired_bound (checkout_signal flow s)"
  by (induction flow) (simp_all add: fired_bound_apply lift_factor_values)

lemma fired_bound_signals: "fired_bound (signals v)"
  unfolding signals_def Let_def
  by (intro fired_bound_checkout fired_bound_if)
     (simp_all add: fired_bound_def lift_factor_values)

lemma lift_positive:
  assumes cf: "26 / 25 \<le> cf" and score: "6 \<le> score"
  shows "0 < py_round ((py_round (23 / 10 * (1 + (cf - 1) * (score / 100))) 2 - 23 / 10) / (23 / 10) * 100) 1"
proof -
  define x where "x = (cf - 1) * (score / 100)"
  have "(1 / 25) * (6 / 100) \<le> (cf - 1) * (score / 100)"
    using cf score by (intro mult_mono) simp_all
  then have "6 / 2500 \<le> x" by (simp add: x_def)
  then have "57638 / 25000 \<le> 23 / 10 * (1 + x)" by simp
  then have "57638 / 25000 \<le> 23 / 10 * (1 + (cf - 1) * (score / 100))"
    by (simp only: x_def)
  then have "py_round (57638 / 25000) 2 \<le> py_round (23 / 10 * (1 + (cf - 1) * (score / 100))) 2"
    by (rule py_round_mono)
  moreover have "py_round (57638 / 25000) 2 = 231 / 100" by code_simp
  ultimately have p: "231 / 100 \<le> py_round (23 / 10 * (1 + (cf - 1) * (score / 100))) 2"
    by simp
  let ?p = "py_round (23 / 10 * (1 + (cf - 1) * (score / 100))) 2"
  have "10 / 23 \<le> (?p - 23 / 10) / (23 / 10) * 100"
    using p by simp
  then have "py_round (10 / 23) 1 \<le> py_round ((?p - 23 / 10) / (23 / 10) * 100) 1"
    by (rule py_round_mono)
  moreover have "py_round (10 / 23) 1 = 4 / 10" by code_simp
  ultimately show ?thesis by simp
qed

text \<open>
  C5 (amended). With \<open>final_factor = 1 + (compound_factor - 1) * (audit_score / 100)\<close>,
  the heuristic computes \<open>predicted = round(baseline * final_factor, 2)\<close> and
  \<open>lift_percentage = round((predicted - baseline) / baseline * 100, 1)\<close>. The lift is 0
  when no signal fires, and strictly positive whenever at least one signal fires and the
  audit score is at least 6.
\<close>

theorem C5_lift_is_rounded_and_signed:
  assumes "audit_score_of audit_result = Inr score"
  shows "\<exists>p. calculate_heuristic_lift v audit_result = Inr p
           \<and> applied_factors p = snd (signals v)
           \<and> predicted p = py_round (baseline p * (1 + (fst (signals v) - 1) * (score / 100))) 2
           \<and> lift_percentage p = py_round ((predicted p - baseline p) / baseline p * 100) 1
           \<and> (applied_factors p = [] \<longrightarrow> lift_percentage p = 0)
           \<and> (applied_factors p \<noteq> [] \<and> 6 \<le> score \<longrightarrow> 0 < lift_percentage p)"
proof -
  let ?p = "\<lparr>metric = ''conversion_rate'', baseline = 23 / 10,
             predicted = py_round (23 / 10 * (1 + (fst (signals v) - 1) * (score / 100))) 2,
             lift_percentage =
               py_round ((py_round (23 / 10 * (1 + (fst (signals v) - 1) * (score / 100))) 2 - 23 / 10)
                         / (23 / 10) * 100) 1,
             confidence_level =
               (if length (snd (signals v)) \<ge> 4 \<and> score \<ge> 80 then ''high''
                else if length (snd (signals v)) \<ge> 2 \<and> score \<ge> 60 then ''medium''
                else ''low''),
             applied_factors = snd (signals v)\<rparr>"
  have run: "calculate_heuristic_lift v audit_result = Inr ?p"
    by (simp add: calculate_heuristic_lift_def assms Let_def)
  have zero: "lift_percentage ?p = 0" if "snd (signals v) = []"
  proof -
    have "fst (signals v) = 1"
      using fired_bound_signals [of v] that by (simp add: fired_bound_def)
    moreover have "py_round (23 / 10) 2 = 23 / 10" by code_simp
    ultimately show ?thesis by (simp add: py_round_zero)
  qed
  have pos: "0 < lift_percentage ?p" if "snd (signals v) \<noteq> []" "6 \<le> score"
  proof -
    have "26 / 25 \<le> fst (signals v)"
      using fired_bound_signals [of v] that(1) by (simp add: fired_bound_def)
    then show ?thesis
      by (simp only: prediction.select_convs lift_positive [OF _ that(2)])
  qed
  show ?thesis
    unfolding run using zero pos by simp
qed

theorem C5_lift_witness:
  "map_sum id lift_percentage
     (calculate_heuristic_lift guarantee_variant (RuleBased (rule_based_audit guarantee_variant False)))
   = Inr (39 / 10)
   \<and> map_sum id predicted
     (calculate_heuristic_lift guarantee_variant (RuleBased (rule_based_audit guarantee_variant False)))
   = Inr (239 / 100)"
proof -
  have a: "audit_score (rule_based_audit guarantee_variant False) = 100" by code_simp
  have s: "audit_score_of (RuleBased (rule_based_audit guarantee_variant False)) = Inr 100"
    by (simp add: audit_score_of_def a)
  have sig: "signals guarantee_variant =
      (26 / 25, [\<lparr>af_rule = ''Enhanced guarantees'', af_lift = ''+4.0%''\<rparr>])"
    by code_simp
  have r1: "py_round (23 / 10 * (1 + (26 / 25 - 1) * (100 / 100))) 2 = 239 / 100" by code_simp
  have r2: "py_round ((239 / 100 - 23 / 10) / (23 / 10) * 100) 1 = 39 / 10" by code_simp
  from C5_lift_is_rounded_and_signed [OF s, of guarantee_variant]
  obtain p where p: "calculate_heuristic_lift guarantee_variant
                        (RuleBased (rule_based_audit guarantee_variant False)) = Inr p"
    and pr: "predicted p = py_round (baseline p * (1 + (fst (signals guarantee_variant) - 1) * (100 / 100))) 2"
    and li: "lift_percentage p = py_round ((predicted p - baseline p) / baseline p * 100) 1"
    by blast
  have b: "baseline p = 23 / 10"
    using p by (auto simp: calculate_heuristic_lift_def s Let_def)
  have pv: "predicted p = 239 / 100" using pr by (simp only: b sig fst_conv r1)
  have lv: "lift_percentage p = 39 / 10" using li by (simp only: b pv r2)
  show ?thesis by (simp add: p pv lv)
qed

text \<open>
  C5 as stated fails for a small positive audit score: with the guarantee signal alone
  and a score of 5 the prediction rounds back to the baseline and the lift is 0.
\<close>

theorem C5_low_score_counterexample:
  "map_sum id lift_percentage
     (calculate_heuristic_lift guarantee_variant (FromGateway [(''audit_score'', JNum 5)])) = Inr 0
   \<and> map_sum id (map af_rule \<circ> applied_factors)
     (calculate_heuristic_lift guarantee_variant (FromGateway [(''audit_score'', JNum 5)]))
     = Inr [''Enhanced guarantees'']"
  by code_simp

text \<open>
  C9. The baseline of the heuristic prediction is the constant 2.3 for every variant and
  audit: it is not read from \<open>BASELINE_RATES\<close>, whose entry for \<open>fashion\<close> is 2.8 and
  which holds no 2.3.
\<close>

theorem C9_baseline_ignores_category:
  "map_sum id baseline (calculate_heuristic_lift v (RuleBased a)) = Inr (23 / 10)
   \<and> map_of BASELINE_RATES ''fashion'' = Some (28 / 10)
   \<and> 23 / 10 \<notin> snd ` set BASELINE_RATES"
proof -
  have "map_sum id baseline (calculate_heuristic_lift v (RuleBased a)) = Inr (23 / 10)"
    by (simp add: calculate_heuristic_lift_def audit_score_of_RuleBased Let_def)
  moreover have "map_of BASELINE_RATES ''fashion'' = Some (28 / 10)"
    by (simp add: BASELINE_RATES_def)
  moreover have "23 / 10 \<notin> snd ` set BASELINE_RATES"
    by (simp add: BASELINE_RATES_def)
  ultimately show ?thesis by blast
qed

subsection \<open>UX adaptation\<close>

lemma heuristic_runs:
  assumes "audit_score_of audit_result = Inr score"
  shows "\<exists>p. calculate_heuristic_lift v audit_result = Inr p \<and> applied_factors p = snd (signals v)"
  by (simp add: calculate_heuristic_lift_def assms Let_def)

lemma streamline_concat:
  assumes "\<forall>step\<in>set base_flow. step_id step \<noteq> None"
  shows "streamline frepr dims base_flow flow =
         Inr (flow @ concat (map (streamlined frepr dims) base_flow))"
  using assms
proof (induction base_flow arbitrary: flow)
  case Nil
  show ?case by simp
next
  case (Cons step base_flow)
  obtain sid where sid: "step_id step = Some sid" using Cons.prems by auto
  have rest: "\<forall>step\<in>set base_flow. step_id step \<noteq> None" using Cons.prems by simp
  show ?case
    by (simp add: sid Cons.IH [OF rest] streamlined_def)
qed

lemma express_in_streamlined:
  assumes "step \<in> set base_flow" "step_id step = Some ''shipping''"
  shows "express_checkout frepr dims \<in> set (concat (map (streamlined frepr dims) base_flow))"
  using assms by (auto simp: streamlined_def)

lemma streamlined_ids:
  assumes "s \<in> set (concat (map (streamlined frepr dims) base_flow))"
  shows "step_id s \<noteq> Some ''shipping'' \<and> step_id s \<noteq> Some ''payment''"
  using assms by (auto simp: streamlined_def express_checkout_def split: if_splits)

lemma express_id: "step_id (express_checkout frepr dims) = Some ''express_checkout''"
  by (simp add: express_checkout_def)

lemma checkout_label: "fmt_1f 8 = ''8.0''"
  by code_simp

lemma checkout_signal_fires:
  assumes "\<exists>step\<in>set flow. step_id step = Some ''express_checkout''"
  shows "checkout_signal flow s = apply_signal ''Checkout step reduction'' (8 / 100) s"
  using assms by (induction flow) (auto simp: lift_factor_values)

lemma signals_checkout:
  assumes "\<exists>step\<in>set (v_flow v). step_id step = Some ''express_checkout''"
  shows "signals v = apply_signal ''Checkout step reduction'' (8 / 100) (signals (v\<lparr>v_flow := []\<rparr>))"
  by (simp add: signals_def Let_def checkout_signal_fires [OF assms])


text \<open>
  C8 (amended). For a profile with \<open>friction_tolerance \<le> 40\<close> (35, for one) and a baseline
  flow that has a \<open>shipping\<close> step, the rule-based UX adaptation puts one
  \<open>express_checkout\<close> step in place of the shipping and payment steps, its adaptation
  citing \<open>friction_tolerance=<value>\<close> as dimension driver; on a variant with that flow
  the prediction applies the checkout-reduction signal once, with a factor of 8\%.
\<close>

theorem C8_low_friction_merges_checkout:
  assumes low: "num_val (dim_get (cp_dimensions profile) ''friction_tolerance'') \<le> 40"
    and ids: "\<forall>step\<in>set (bs_baseline_flow spec). step_id step \<noteq> None"
    and ship: "\<exists>step\<in>set (bs_baseline_flow spec). step_id step = Some ''shipping''"
  shows "\<exists>ux p. rule_based_adaptation frepr (cp_dimensions profile) rules spec price_band = Inr ux
           \<and> express_checkout frepr (cp_dimensions profile) \<in> set (ux_flow ux)
           \<and> (\<forall>step\<in>set (ux_flow ux).
                 step_id step \<noteq> Some ''shipping'' \<and> step_id step \<noteq> Some ''payment'')
           \<and> map fa_dimension_driver (step_adaptations (express_checkout frepr (cp_dimensions profile)))
               = [Some (''friction_tolerance=''
                        @ py_str frepr (dim_get (cp_dimensions profile) ''friction_tolerance''))]
           \<and> (\<forall>v. v_flow v = ux_flow ux \<longrightarrow>
                 signals v = apply_signal ''Checkout step reduction'' (8 / 100) (signals (v\<lparr>v_flow := []\<rparr>)))
           \<and> rule_based_pipeline frepr profile rules spec price_band copy_variants = Inr p
           \<and> \<lparr>af_rule = ''Checkout step reduction'', af_lift = ''+8.0%''\<rparr> \<in> set (applied_factors p)"
proof -
  let ?dims = "cp_dimensions profile"
  let ?flow = "concat (map (streamlined frepr ?dims) (bs_baseline_flow spec))"
  define ux where "ux =
           \<lparr>ux_theme_emphasis =
               (if triggered_themes ?dims \<noteq> [] then join '', '' (triggered_themes ?dims) else ''balanced''),
             ux_rationale =
               ''Adaptation driven by '' @ show_nat (length rules)
               @ '' applicable mapping rules for '' @ show_nat (length (triggered_themes ?dims))
               @ '' identified behavioral patterns. Generated using rule-based fallback.'',
             ux_flow = ?flow,
             ux_modules = adapted_modules frepr ?dims\<rparr>"
  define v0 where "v0 = partial_variant (cp_country_code profile) ux copy_variants profile"
  have run: "rule_based_adaptation frepr ?dims rules spec price_band = Inr ux"
    by (simp add: rule_based_adaptation_def Let_def low streamline_concat [OF ids] ux_def)
  have flow: "ux_flow ux = ?flow" by (simp add: ux_def)
  have ex: "express_checkout frepr ?dims \<in> set (ux_flow ux)"
    unfolding flow using ship express_in_streamlined by blast
  have ids': "\<forall>step\<in>set (ux_flow ux).
                step_id step \<noteq> Some ''shipping'' \<and> step_id step \<noteq> Some ''payment''"
    unfolding flow using streamlined_ids by blast
  have drv: "map fa_dimension_driver (step_adaptations (express_checkout frepr ?dims))
               = [Some (''friction_tolerance='' @ py_str frepr (dim_get ?dims ''friction_tolerance''))]"
    by (simp add: step_adaptations_def express_checkout_def)
  have fire: "\<exists>step\<in>set (ux_flow ux). step_id step = Some ''express_checkout''"
    using ex express_id by blast
  have sig: "signals v = apply_signal ''Checkout step reduction'' (8 / 100) (signals (v\<lparr>v_flow := []\<rparr>))"
    if "v_flow v = ux_flow ux" for v
    using fire that by (simp add: signals_checkout)
  have vflow: "v_flow v0 = ux_flow ux" by (simp add: v0_def partial_variant_def)
  have score: "audit_score_of (RuleBased (rule_based_audit v0 False))
               = Inr (of_int (audit_score (rule_based_audit v0 False)))"
    by (rule audit_score_of_RuleBased)
  from heuristic_runs [OF score, of v0]
  obtain p where p: "calculate_heuristic_lift v0 (RuleBased (rule_based_audit v0 False)) = Inr p"
    and af: "applied_factors p = snd (signals v0)"
    by blast
  have pipe: "rule_based_pipeline frepr profile rules spec price_band copy_variants = Inr p"
    by (simp only: rule_based_pipeline_def run sum.case Let_def p [unfolded v0_def])
  have "\<lparr>af_rule = ''Checkout step reduction'', af_lift = ''+8.0%''\<rparr> \<in> set (snd (signals v0))"
    by (simp add: sig [OF vflow] apply_signal_def checkout_label)
  then have mem: "\<lparr>af_rule = ''Checkout step reduction'', af_lift = ''+8.0%''\<rparr> \<in> set (applied_factors p)"
    by (simp add: af)
  have sig': "\<forall>v. v_flow v = ux_flow ux \<longrightarrow>
          signals v = apply_signal ''Checkout step reduction'' (8 / 100) (signals (v\<lparr>v_flow := []\<rparr>))"
    using sig by (intro allI impI)
  show ?thesis
    by (rule exI [of _ ux], rule exI [of _ p]) (intro conjI run ex ids' drv sig' pipe mem)
qed


theorem C8_merge_witness:
  "(\<exists>p. rule_based_pipeline repr_integral gt_profile [] checkout_base_spec ''mid'' [] = Inr p
        \<and> \<lparr>af_rule = ''Checkout step reduction'', af_lift = ''+8.0%''\<rparr> \<in> set (applied_factors p))
   \<and> map fa_dimension_driver (step_adaptations (express_checkout repr_integral gt_dimensions))
       = [Some ''friction_tolerance=35'']"
proof -
  have low: "num_val (dim_get (cp_dimensions gt_profile) ''friction_tolerance'') \<le> 40"
    by (simp add: gt_profile_def gt_dimensions_def dim_get_def)
  have ids: "\<forall>step\<in>set (bs_baseline_flow checkout_base_spec). step_id step \<noteq> None"
    by (simp add: checkout_base_spec_def plain_step_def)
  have ship: "\<exists>step\<in>set (bs_baseline_flow checkout_base_spec). step_id step = Some ''shipping''"
    by (simp add: checkout_base_spec_def plain_step_def)
  have dims: "cp_dimensions gt_profile = gt_dimensions" by (simp add: gt_profile_def)
  have str: "py_str repr_integral (dim_get gt_dimensions ''friction_tolerance'') = ''35''"
    by (simp add: gt_dimensions_def dim_get_def show_int_def show_nat.simps digit_def)
  from C8_low_friction_merges_checkout [OF low ids ship, of repr_integral "[]" "''mid''" "[]"]
  show ?thesis
    unfolding dims str by auto
qed

text \<open>
  C8 as stated fails on the default baseline, whose flow has no shipping step: with
  \<open>friction_tolerance = 35\<close> the flow keeps its five steps and the prediction applies no
  checkout-reduction signal.
\<close>

theorem C8_default_flow_counterexample:
  "map_sum id (map step_id \<circ> ux_flow)
     (rule_based_adaptation repr_integral gt_dimensions [] default_base_spec ''mid'')
   = Inr [Some ''browse'', Some ''detail'', Some ''cart'', Some ''checkout'', Some ''confirm'']
   \<and> map_sum id (map af_rule \<circ> applied_factors)
     (rule_based_pipeline repr_integral gt_profile [] default_base_spec ''mid'' [])
   = Inr [''Social proof emphasis'', ''Enhanced guarantees'', ''Value/installment framing'']"
  by code_simp

subsection \<open>Variant store\<close>

lemma get_store_all:
  "get (store_all s calls) k = (case map_of (rev calls) k of None \<Rightarrow> get s k | Some v \<Rightarrow> Some v)"
proof (induction calls arbitrary: s)
  case Nil
  show ?case by simp
next
  case (Cons c calls)
  obtain i v where c: "c = (i, v)" by (cases c)
  have "get (store_all s (c # calls)) k =
        (case map_of (rev calls) k of None \<Rightarrow> get (store s i v) k | Some w \<Rightarrow> Some w)"
    by (simp add: c Cons.IH)
  also have "\<dots> = (case map_of (rev (c # calls)) k of None \<Rightarrow> get s k | Some w \<Rightarrow> Some w)"
    by (simp add: c map_add_def get_def store_def split: option.splits)
  finally show ?case .
qed

text \<open>
  C10. After any sequence of \<open>store\<close> calls on a fresh store, \<open>get\<close> of an id returns the
  variant of the most recent call for that id, and \<open>None\<close> for an id never stored; a
  second \<open>store\<close> under the same id replaces the first and is not rejected.
\<close>

theorem C10_get_returns_latest_store:
  "get (store_all VariantStore_init (calls :: (string \<times> 'v) list)) k = map_of (rev calls) k
   \<and> get (store (store s k v1) k v2) k = Some v2
   \<and> get (VariantStore_init :: 'v VariantStore) k = None"
proof -
  have "get (VariantStore_init :: 'v VariantStore) k = None" for k
    by (simp add: get_def VariantStore_init_def)
  then have "get (store_all VariantStore_init calls) k = map_of (rev calls) k"
    by (simp add: get_store_all split: option.splits)
  moreover have "get (store (store s k v1) k v2) k = Some v2"
    by (simp add: get_def store_def)
  moreover have "get (VariantStore_init :: 'v VariantStore) k = None"
    by (simp add: get_def VariantStore_init_def)
  ultimately show ?thesis by blast
qed

end
